theory Spec2Isabelle
  imports Complex_Main "HOL-Library.Product_Lexorder"
begin

section \<open>Data model\<close>

text \<open>
  The Python sources are embedded shallowly. Python \<open>float\<close> values (confidences,
  similarity scores, accuracies) are modelled as \<open>real\<close>, Python \<open>int\<close> as \<open>int\<close>,
  \<open>str\<close> as \<open>string\<close> (characters are code points below 256). A raised exception is
  the left injection of a sum; \<open>str(e)\<close> of the exception is the carried message.
\<close>

datatype error = Error string

fun str_of_error :: "error \<Rightarrow> string" where
  "str_of_error (Error msg) = msg"

text \<open>\<open>app/processing/layout/base.py\<close>: a region's bbox dictionary and \<open>Region\<close>.\<close>

record bbox =
  x1 :: int
  y1 :: int
  x2 :: int
  y2 :: int

record Region =
  r_id :: int
  r_type :: string
  r_confidence :: real
  r_bbox :: bbox

text \<open>\<open>app/processing/ocr/base.py\<close>: \<open>TextLine\<close> and \<open>OCRResult\<close>.\<close>

record TextLine =
  line_text :: string
  confidence :: real
  bbox_in_region :: bbox

record OCRResult =
  region_id :: int
  full_text :: string
  lines :: "TextLine list"

text \<open>\<open>app/models/result.py\<close>: \<open>VerificationStatus\<close> and \<open>ExtractedField\<close>.\<close>

datatype VerificationStatus = UNVERIFIED | VERIFIED | CORRECTED

record ExtractedField =
  field_name :: string
  expected_value :: string
  extracted_value :: string
  ef_confidence :: real
  match_score :: real
  is_important :: bool
  verification_status :: VerificationStatus
  corrected_value :: "string option"

section \<open>Python string primitives\<close>

text \<open>\<open>sep.join(parts)\<close>.\<close>

fun join :: "string \<Rightarrow> string list \<Rightarrow> string" where
  "join sep [] = []"
| "join sep [p] = p"
| "join sep (p # q # ps) = p @ sep @ join sep (q # ps)"

text \<open>\<open>str.lower()\<close> on code points below 256: the ASCII capitals and the Latin-1
  capitals \<open>0xC0..0xDE\<close> except the multiplication sign \<open>0xD7\<close> move up by 32.\<close>

definition lower_char :: "char \<Rightarrow> char" where
  "lower_char c =
     (let n = (of_char c :: nat)
      in if (65 \<le> n \<and> n \<le> 90) \<or> (192 \<le> n \<and> n \<le> 222 \<and> n \<noteq> 215)
         then char_of (n + 32) else c)"

definition lower :: "string \<Rightarrow> string" where
  "lower s = map lower_char s"

section \<open>Field matcher and scorer (\<open>app/services/ocr_pipeline.py\<close>)\<close>

text \<open>
  \<open>difflib.SequenceMatcher(None, a, b).ratio()\<close> belongs to the Python standard library,
  not to the repository; it is the parameter \<open>ratio\<close> of the matcher.
\<close>

type_synonym similarity = "string \<Rightarrow> string \<Rightarrow> real"

text \<open>The three loop variables \<open>best_match\<close>, \<open>best_score\<close>, \<open>best_confidence\<close>.\<close>

record best =
  best_match :: string
  best_score :: real
  best_confidence :: real

text \<open>Body of the inner loop over \<open>ocr_result.lines\<close> (lines 97-108).\<close>

definition match_line :: "similarity \<Rightarrow> string \<Rightarrow> TextLine \<Rightarrow> best \<Rightarrow> best" where
  "match_line ratio expected line b =
     (let score = ratio (lower expected) (lower (line_text line))
      in if score > best_score b
         then \<lparr>best_match = line_text line, best_score = score, best_confidence = confidence line\<rparr>
         else b)"

text \<open>The check of the region's full text (lines 110-122).\<close>

definition match_full_text :: "similarity \<Rightarrow> string \<Rightarrow> OCRResult \<Rightarrow> best \<Rightarrow> best" where
  "match_full_text ratio expected ocr_result b =
     (let score = ratio (lower expected) (lower (full_text ocr_result))
      in if score > best_score b
         then \<lparr>best_match = full_text ocr_result, best_score = score,
               best_confidence = sum_list (map confidence (lines ocr_result))
                                 / real (max (length (lines ocr_result)) 1)\<rparr>
         else b)"

text \<open>Body of the outer loop over \<open>ocr_results\<close> (lines 96-122).\<close>

definition match_result :: "similarity \<Rightarrow> string \<Rightarrow> OCRResult \<Rightarrow> best \<Rightarrow> best" where
  "match_result ratio expected ocr_result b =
     match_full_text ratio expected ocr_result
       (fold (match_line ratio expected) (lines ocr_result) b)"

text \<open>One iteration of the loop over \<open>expected_values.items()\<close> (lines 89-131).\<close>

definition match_field :: "similarity \<Rightarrow> OCRResult list \<Rightarrow> string \<times> string \<Rightarrow> ExtractedField" where
  "match_field ratio ocr_results item =
     (let b = fold (match_result ratio (snd item)) ocr_results
                \<lparr>best_match = [], best_score = 0, best_confidence = 0\<rparr>
      in \<lparr>field_name = fst item, expected_value = snd item,
          extracted_value = best_match b, ef_confidence = best_confidence b,
          match_score = best_score b, is_important = True,
          verification_status = UNVERIFIED, corrected_value = None\<rparr>)"

text \<open>
  \<open>_match_fields\<close>. The dictionary \<open>expected_values\<close> is the list of its items in
  insertion order. The variable \<open>all_text\<close> of the source is computed and never read.
\<close>

definition match_fields :: "similarity \<Rightarrow> (string \<times> string) list \<Rightarrow> OCRResult list \<Rightarrow> ExtractedField list" where
  "match_fields ratio expected_values ocr_results =
     map (match_field ratio ocr_results) expected_values"

text \<open>\<open>_calculate_accuracy\<close>.\<close>

definition calculate_accuracy :: "ExtractedField list \<Rightarrow> real" where
  "calculate_accuracy extracted_fields =
     (if extracted_fields = [] then 0
      else let important0 = filter is_important extracted_fields;
               important = (if important0 = [] then extracted_fields else important0);
               total_score = sum_list (map match_score important)
           in total_score / real (length important))"

text \<open>
  The candidates of the matcher as the specification words them: for every result, in
  order, each of its lines (text, line confidence, similarity) and then its full text
  (full text, mean line confidence, similarity).
\<close>

type_synonym candidate = "string \<times> real \<times> real"

definition cand_score :: "candidate \<Rightarrow> real" where
  "cand_score c = snd (snd c)"

definition result_candidates :: "similarity \<Rightarrow> string \<Rightarrow> OCRResult \<Rightarrow> candidate list" where
  "result_candidates ratio expected r =
     map (\<lambda>l. (line_text l, confidence l, ratio (lower expected) (lower (line_text l)))) (lines r)
     @ [(full_text r,
         sum_list (map confidence (lines r)) / real (max (length (lines r)) 1),
         ratio (lower expected) (lower (full_text r)))]"

definition candidates :: "similarity \<Rightarrow> string \<Rightarrow> OCRResult list \<Rightarrow> candidate list" where
  "candidates ratio expected rs = concat (map (result_candidates ratio expected) rs)"

text \<open>The first candidate, in enumeration order, whose score is the highest of all.\<close>

definition first_highest :: "candidate list \<Rightarrow> candidate option" where
  "first_highest cs = find (\<lambda>c. \<forall>d \<in> set cs. cand_score d \<le> cand_score c) cs"

text \<open>A similarity that is 1 on equal strings and 0 otherwise. It agrees with
  \<open>SequenceMatcher.ratio\<close> wherever the two strings are equal or share no character,
  and is used at such arguments only.\<close>

definition ratio_eq :: similarity where
  "ratio_eq a b = (if a = b then 1 else 0)"

text \<open>The arithmetic mean of a non-empty list of scores.\<close>

definition mean :: "real list \<Rightarrow> real" where
  "mean xs = sum_list xs / real (length xs)"

text \<open>
  Auxiliary notions for the matcher: the update of the running best by one candidate,
  the running best that a candidate leaves behind, and the first candidate that is
  highest of all and scores strictly above a threshold.
\<close>

definition upd :: "candidate \<Rightarrow> best \<Rightarrow> best" where
  "upd c b = (if cand_score c > best_score b
     then \<lparr>best_match = fst c, best_score = cand_score c, best_confidence = fst (snd c)\<rparr> else b)"

definition best_of :: "candidate \<Rightarrow> best" where
  "best_of c = \<lparr>best_match = fst c, best_score = cand_score c, best_confidence = fst (snd c)\<rparr>"

definition first_above :: "real \<Rightarrow> candidate list \<Rightarrow> candidate option" where
  "first_above s cs = find (\<lambda>c. s < cand_score c \<and> (\<forall>d \<in> set cs. cand_score d \<le> cand_score c)) cs"

text \<open>Sample data for the closed instances below.\<close>

definition ef :: "real \<Rightarrow> bool \<Rightarrow> ExtractedField" where
  "ef s i = \<lparr>field_name = ''f'', expected_value = ''v'', extracted_value = ''v'',
     ef_confidence = 1, match_score = s, is_important = i,
     verification_status = UNVERIFIED, corrected_value = None\<rparr>"


definition scenario_results :: "OCRResult list" where
  "scenario_results =
     [\<lparr>region_id = 1, full_text = ''2024-CV-001234'',
       lines = [\<lparr>line_text = ''2024-CV-001234'', confidence = 9/10,
                 bbox_in_region = \<lparr>x1 = 0, y1 = 0, x2 = 120, y2 = 20\<rparr>\<rparr>]\<rparr>]"

definition unrelated_results :: "OCRResult list" where
  "unrelated_results =
     [\<lparr>region_id = 1, full_text = ''xyz'',
       lines = [\<lparr>line_text = ''xyz'', confidence = 9/10,
                 bbox_in_region = \<lparr>x1 = 0, y1 = 0, x2 = 30, y2 = 20\<rparr>\<rparr>]\<rparr>]"

section \<open>Python numeric and string helpers used by the adapters\<close>

text \<open>\<open>int(x)\<close> of a float truncates towards zero.\<close>

definition py_int :: "real \<Rightarrow> int" where
  "py_int x = (if 0 \<le> x then \<lfloor>x\<rfloor> else \<lceil>x\<rceil>)"

text \<open>\<open>round(x, 4)\<close>: to four decimals, ties to the even neighbour.\<close>

definition round_half_even :: "real \<Rightarrow> int" where
  "round_half_even y =
     (let f = \<lfloor>y\<rfloor>; d = y - of_int f
      in if d < 1/2 then f else if 1/2 < d then f + 1 else if even f then f else f + 1)"

definition round4 :: "real \<Rightarrow> real" where
  "round4 x = of_int (round_half_even (x * 10000)) / 10000"

text \<open>\<open>min(xs)\<close> and \<open>max(xs)\<close> of a non-empty list (callers guard the empty case).\<close>

fun py_min :: "real list \<Rightarrow> real" where
  "py_min [] = 0"
| "py_min (x # xs) = fold min xs x"

fun py_max :: "real list \<Rightarrow> real" where
  "py_max [] = 0"
| "py_max (x # xs) = fold max xs x"

text \<open>\<open>str.isspace\<close> on code points below 256, \<open>str.strip()\<close>, \<open>str.split('\n')\<close>.\<close>

definition is_space :: "char \<Rightarrow> bool" where
  "is_space c =
     (let n = (of_char c :: nat)
      in (9 \<le> n \<and> n \<le> 13) \<or> (28 \<le> n \<and> n \<le> 32) \<or> n = 133 \<or> n = 160)"

definition strip :: "string \<Rightarrow> string" where
  "strip s = rev (dropWhile is_space (rev (dropWhile is_space s)))"

definition newline :: char where
  "newline = CHR 0x0A"

fun split_newline :: "string \<Rightarrow> string list" where
  "split_newline [] = [[]]"
| "split_newline (c # cs) =
     (if c = newline then [] # split_newline cs
      else (case split_newline cs of
              [] \<Rightarrow> [[c]]
            | w # ws \<Rightarrow> (c # w) # ws))"

text \<open>Decimal rendering of an integer, for \<open>f"class_{class_id}"\<close>.\<close>

definition digit_char :: "nat \<Rightarrow> char" where
  "digit_char d = char_of (48 + d)"

fun str_nat :: "nat \<Rightarrow> string" where
  "str_nat n = (if n < 10 then [digit_char n] else str_nat (n div 10) @ [digit_char (n mod 10)])"

definition str_int :: "int \<Rightarrow> string" where
  "str_int i = (if i < 0 then CHR ''-'' # str_nat (nat (- i)) else str_nat (nat i))"

text \<open>\<open>repr\<close> of a list of plain strings, as an f-string renders it.\<close>

definition repr_str_list :: "string list \<Rightarrow> string" where
  "repr_str_list xs =
     ''['' @ join '', '' (map (\<lambda>s. [CHR 0x27] @ s @ [CHR 0x27]) xs) @ '']''"

text \<open>
  A Python dictionary as the list of its items in insertion order: \<open>d[k] = v\<close> replaces
  the value of an existing key in place and appends a new key; \<open>map_of\<close> looks a key up.
\<close>

fun dict_set :: "'k \<Rightarrow> 'v \<Rightarrow> ('k \<times> 'v) list \<Rightarrow> ('k \<times> 'v) list" where
  "dict_set k v [] = [(k, v)]"
| "dict_set k v ((k', v') # kvs) =
     (if k = k' then (k, v) # kvs else (k', v') # dict_set k v kvs)"

text \<open>A loop whose body may raise: the first exception ends it.\<close>

fun map_result :: "('a \<Rightarrow> error + 'b) \<Rightarrow> 'a list \<Rightarrow> error + 'b list" where
  "map_result f [] = Inr []"
| "map_result f (x # xs) =
     (case f x of
        Inl e \<Rightarrow> Inl e
      | Inr y \<Rightarrow> (case map_result f xs of Inl e \<Rightarrow> Inl e | Inr ys \<Rightarrow> Inr (y # ys)))"

section \<open>Images and the external models\<close>

text \<open>
  A PIL image: its size and mode, and its pixel content, which the model leaves
  abstract. The models behind the adapters (EasyOCR, Surya, PaddleOCR, pytesseract,
  TrOCR, GOT-OCR, MinerU, DocLayout-YOLO, DocTR) and the blob store are external; the
  record \<open>backend\<close> holds what each returns, or the exception it raises.
\<close>

record 'p image =
  width :: int
  height :: int
  mode :: string
  pixels :: 'p

datatype engine =
  EasyOCREngine | SuryaOCREngine | PaddleOCREngine | TesseractEngine
  | TrOCREngine | GotOCREngine | MinerUEngine

datatype detector = DocLayoutYOLODetector | DocTRLayoutDetector | SuryaLayoutDetector

type_synonym box4 = "real \<times> real \<times> real \<times> real"

type_synonym easyocr_detection = "(real \<times> real) list \<times> string \<times> real"

record surya_text_line =
  sl_text :: string
  sl_confidence :: "real option"
  sl_bbox :: "box4 option"

record paddle_result =
  rec_texts :: "string list option"
  rec_scores :: "real list option"
  rec_boxes :: "box4 list option"

record tesseract_word =
  tw_text :: string
  tw_conf :: int
  tw_line_num :: int
  tw_left :: int
  tw_top :: int
  tw_width :: int
  tw_height :: int

record mineru_block =
  content :: "string option"
  block_type :: "string option"
  block_bbox :: "real list option"

record yolo_box =
  xyxy :: box4
  conf :: real
  cls :: int

record yolo_result =
  boxes :: "yolo_box list"
  names :: "(int \<times> string) list"

type_synonym doctr_row = "real \<times> real \<times> real \<times> real \<times> real"

datatype doctr_page = WordsDict "doctr_row list" | WordsArray "doctr_row list"

record surya_layout_box =
  sb_bbox :: box4
  sb_confidence :: "real option"
  sb_label :: "string option"

record 'p backend =
  crop_pixels :: "'p \<Rightarrow> int \<times> int \<times> int \<times> int \<Rightarrow> 'p"
  convert_pixels :: "string \<Rightarrow> 'p \<Rightarrow> 'p"
  download_file :: "string \<Rightarrow> error + string"
  open_image :: "string \<Rightarrow> error + 'p image"
  load_engine :: "engine \<Rightarrow> error option"
  load_detector :: "detector \<Rightarrow> error option"
  easyocr_readtext :: "'p image \<Rightarrow> error + easyocr_detection list"
  surya_recognition :: "'p image \<Rightarrow> error + surya_text_line list list"
  paddle_predict :: "'p image \<Rightarrow> error + paddle_result list"
  tesseract_image_to_data :: "'p image \<Rightarrow> error + tesseract_word list"
  trocr_gray :: "'p image \<Rightarrow> nat list list"
  trocr_generate :: "'p image \<Rightarrow> error + string"
  got_generate :: "'p image \<Rightarrow> error + string"
  mineru_two_step_extract :: "'p image \<Rightarrow> error + mineru_block list"
  yolo_predict :: "'p image \<Rightarrow> error + yolo_result list"
  doctr_predict :: "'p image \<Rightarrow> error + doctr_page list"
  surya_detection :: "'p image \<Rightarrow> error + surya_layout_box list list"

text \<open>
  \<open>image.crop((left, upper, right, lower))\<close>. Pillow raises \<open>ValueError\<close> when \<open>right\<close> is
  less than \<open>left\<close>, or \<open>lower\<close> less than \<open>upper\<close>; otherwise the crop has width
  \<open>right - left\<close> and height \<open>lower - upper\<close>.
\<close>

definition valid_box :: "int \<times> int \<times> int \<times> int \<Rightarrow> bool" where
  "valid_box box = (case box of (lft, upr, rgt, lwr) \<Rightarrow> lft \<le> rgt \<and> upr \<le> lwr)"

definition cropped_image :: "'p backend \<Rightarrow> 'p image \<Rightarrow> int \<times> int \<times> int \<times> int \<Rightarrow> 'p image" where
  "cropped_image env img box =
     (case box of (lft, upr, rgt, lwr) \<Rightarrow>
        \<lparr>width = rgt - lft, height = lwr - upr, mode = mode img,
         pixels = crop_pixels env (pixels img) box\<rparr>)"

definition crop :: "'p backend \<Rightarrow> 'p image \<Rightarrow> int \<times> int \<times> int \<times> int \<Rightarrow> error + 'p image" where
  "crop env img box =
     (case box of (lft, upr, rgt, lwr) \<Rightarrow>
        if rgt < lft
        then Inl (Error (''Coordinate '' @ [CHR 0x27] @ ''right'' @ [CHR 0x27]
                         @ '' is less than '' @ [CHR 0x27] @ ''left'' @ [CHR 0x27]))
        else if lwr < upr
        then Inl (Error (''Coordinate '' @ [CHR 0x27] @ ''lower'' @ [CHR 0x27]
                         @ '' is less than '' @ [CHR 0x27] @ ''upper'' @ [CHR 0x27]))
        else Inr (cropped_image env img box))"

text \<open>\<open>image.convert(mode)\<close>.\<close>

definition convert :: "'p backend \<Rightarrow> 'p image \<Rightarrow> string \<Rightarrow> 'p image" where
  "convert env img m = img\<lparr>mode := m, pixels := convert_pixels env m (pixels img)\<rparr>"

text \<open>\<open>if image.mode != 'RGB': image = image.convert('RGB')\<close>.\<close>

definition ensure_rgb :: "'p backend \<Rightarrow> 'p image \<Rightarrow> 'p image" where
  "ensure_rgb env img = (if mode img \<noteq> ''RGB'' then convert env img ''RGB'' else img)"

section \<open>OCR engine adapters (\<open>app/processing/ocr\<close>)\<close>

text \<open>
  Each adapter's \<open>_process_cropped_image\<close> starts by loading its model
  (\<open>load_engine\<close>; for Tesseract the import of \<open>pytesseract\<close>), calls the model on
  the cropped image, and builds the lines and the full text.
\<close>

subsection \<open>EasyOCR (\<open>easyocr_engine.py\<close>)\<close>

definition easyocr_line :: "easyocr_detection \<Rightarrow> error + TextLine" where
  "easyocr_line detection =
     (case detection of (bbox_points, txt, c) \<Rightarrow>
        let x_coords = map fst bbox_points; y_coords = map snd bbox_points
        in if bbox_points = [] then Inl (Error ''min() iterable argument is empty'')
           else Inr \<lparr>line_text = txt, confidence = round4 c,
                     bbox_in_region = \<lparr>x1 = py_int (py_min x_coords), y1 = py_int (py_min y_coords),
                                        x2 = py_int (py_max x_coords), y2 = py_int (py_max y_coords)\<rparr>\<rparr>)"

definition easyocr_process_cropped_image :: "'p backend \<Rightarrow> 'p image \<Rightarrow> int \<Rightarrow> error + OCRResult" where
  "easyocr_process_cropped_image env img rid =
     (case load_engine env EasyOCREngine of
        Some e \<Rightarrow> Inl e
      | None \<Rightarrow>
         (case easyocr_readtext env img of
            Inl e \<Rightarrow> Inl e
          | Inr ocr_result \<Rightarrow>
             (case map_result easyocr_line ocr_result of
                Inl e \<Rightarrow> Inl e
              | Inr ls \<Rightarrow>
                 let full_text_parts = map (\<lambda>detection. fst (snd detection)) ocr_result
                 in Inr \<lparr>region_id = rid, full_text = join '' '' full_text_parts, lines = ls\<rparr>)))"

subsection \<open>Surya OCR (\<open>surya_ocr.py\<close>)\<close>

definition surya_line :: "int \<Rightarrow> int \<Rightarrow> surya_text_line \<Rightarrow> TextLine" where
  "surya_line w h text_line =
     (let c = (case sl_confidence text_line of None \<Rightarrow> 1/2 | Some v \<Rightarrow> v);
          bb = (case sl_bbox text_line of
                  None \<Rightarrow> \<lparr>x1 = 0, y1 = 0, x2 = w, y2 = h\<rparr>
                | Some (a, b, c, d) \<Rightarrow> \<lparr>x1 = py_int a, y1 = py_int b, x2 = py_int c, y2 = py_int d\<rparr>)
      in \<lparr>line_text = sl_text text_line, confidence = round4 c, bbox_in_region = bb\<rparr>)"

definition surya_process_cropped_image :: "'p backend \<Rightarrow> 'p image \<Rightarrow> int \<Rightarrow> error + OCRResult" where
  "surya_process_cropped_image env img rid =
     (case load_engine env SuryaOCREngine of
        Some e \<Rightarrow> Inl e
      | None \<Rightarrow>
         (case surya_recognition env img of
            Inl e \<Rightarrow> Inl e
          | Inr results \<Rightarrow>
             (case results of
                [] \<Rightarrow> Inr \<lparr>region_id = rid, full_text = join '' '' [], lines = []\<rparr>
              | page_result # _ \<Rightarrow>
                 Inr \<lparr>region_id = rid,
                      full_text = join '' '' (map sl_text page_result),
                      lines = map (surya_line (width img) (height img)) page_result\<rparr>)))"

subsection \<open>PaddleOCR (\<open>paddleocr_engine.py\<close>)\<close>

definition paddle_line :: "real list \<Rightarrow> box4 list option \<Rightarrow> nat \<times> string \<Rightarrow> TextLine" where
  "paddle_line scores bxs it =
     (case it of (i, txt) \<Rightarrow>
        let c = (if i < length scores then scores ! i else 0);
            bb = (case bxs of
                    None \<Rightarrow> \<lparr>x1 = 0, y1 = 0, x2 = 0, y2 = 0\<rparr>
                  | Some bs \<Rightarrow>
                     if i < length bs
                     then (case bs ! i of (a, b, c, d) \<Rightarrow>
                             \<lparr>x1 = py_int a, y1 = py_int b, x2 = py_int c, y2 = py_int d\<rparr>)
                     else \<lparr>x1 = 0, y1 = 0, x2 = 0, y2 = 0\<rparr>)
        in \<lparr>line_text = txt, confidence = round4 c, bbox_in_region = bb\<rparr>)"

text \<open>The inner loop over \<open>enumerate(texts)\<close>; an empty text is skipped.\<close>

definition paddle_result_lines :: "paddle_result \<Rightarrow> TextLine list" where
  "paddle_result_lines res =
     (let texts = (case rec_texts res of None \<Rightarrow> [] | Some ts \<Rightarrow> ts);
          scores = (case rec_scores res of None \<Rightarrow> [] | Some ss \<Rightarrow> ss)
      in map (paddle_line scores (rec_boxes res))
           (filter (\<lambda>it. snd it \<noteq> []) (zip [0..<length texts] texts)))"

definition paddle_result_parts :: "paddle_result \<Rightarrow> string list" where
  "paddle_result_parts res =
     (let texts = (case rec_texts res of None \<Rightarrow> [] | Some ts \<Rightarrow> ts)
      in filter (\<lambda>t. t \<noteq> []) texts)"

definition paddle_process_cropped_image :: "'p backend \<Rightarrow> 'p image \<Rightarrow> int \<Rightarrow> error + OCRResult" where
  "paddle_process_cropped_image env img rid =
     (case load_engine env PaddleOCREngine of
        Some e \<Rightarrow> Inl e
      | None \<Rightarrow>
         (case paddle_predict env img of
            Inl e \<Rightarrow> Inl e
          | Inr results \<Rightarrow>
             Inr \<lparr>region_id = rid,
                  full_text = join '' '' (concat (map paddle_result_parts results)),
                  lines = concat (map paddle_result_lines results)\<rparr>))"

subsection \<open>Tesseract (\<open>tesseract_engine.py\<close>)\<close>

record line_group =
  words :: "string list"
  confs :: "int list"
  g_x1 :: int
  g_y1 :: int
  g_x2 :: int
  g_y2 :: int

text \<open>The dictionary \<open>line_groups\<close> is an association list keyed by line number.\<close>

text \<open>One iteration of the loop over the word boxes (lines 59-85).\<close>

definition tesseract_group_word :: "tesseract_word \<Rightarrow> (int \<times> line_group) list \<Rightarrow> (int \<times> line_group) list" where
  "tesseract_group_word w line_groups =
     (let txt = strip (tw_text w); c = tw_conf w
      in if txt = [] \<or> c < 0 then line_groups
         else
           let line_num = tw_line_num w;
               grp = (case map_of line_groups line_num of
                        Some g \<Rightarrow> g
                      | None \<Rightarrow> \<lparr>words = [], confs = [], g_x1 = tw_left w, g_y1 = tw_top w,
                                  g_x2 = tw_left w + tw_width w, g_y2 = tw_top w + tw_height w\<rparr>);
               grp' = \<lparr>words = words grp @ [txt], confs = confs grp @ [c],
                       g_x1 = min (g_x1 grp) (tw_left w),
                       g_y1 = min (g_y1 grp) (tw_top w),
                       g_x2 = max (g_x2 grp) (tw_left w + tw_width w),
                       g_y2 = max (g_y2 grp) (tw_top w + tw_height w)\<rparr>
           in dict_set line_num grp' line_groups)"

text \<open>One iteration of the loop over \<open>sorted(line_groups.keys())\<close> (lines 88-103).\<close>

definition tesseract_line :: "line_group \<Rightarrow> TextLine" where
  "tesseract_line grp =
     (let line_txt = join '' '' (words grp);
          avg_conf = real_of_int (sum_list (confs grp)) / real (length (confs grp)) / 100
      in \<lparr>line_text = line_txt, confidence = round4 avg_conf,
          bbox_in_region = \<lparr>x1 = g_x1 grp, y1 = g_y1 grp, x2 = g_x2 grp, y2 = g_y2 grp\<rparr>\<rparr>)"

definition tesseract_sorted_groups :: "(int \<times> line_group) list \<Rightarrow> line_group list" where
  "tesseract_sorted_groups line_groups =
     map (\<lambda>k. case map_of line_groups k of
                 Some g \<Rightarrow> g
               | None \<Rightarrow> \<lparr>words = [], confs = [], g_x1 = 0, g_y1 = 0, g_x2 = 0, g_y2 = 0\<rparr>)
         (sort (map fst line_groups))"

definition tesseract_process_cropped_image :: "'p backend \<Rightarrow> 'p image \<Rightarrow> int \<Rightarrow> error + OCRResult" where
  "tesseract_process_cropped_image env img rid =
     (case load_engine env TesseractEngine of
        Some e \<Rightarrow> Inl e
      | None \<Rightarrow>
         (case tesseract_image_to_data env (ensure_rgb env img) of
            Inl e \<Rightarrow> Inl e
          | Inr data \<Rightarrow>
             let line_groups = fold tesseract_group_word data [];
                 groups = tesseract_sorted_groups line_groups
             in Inr \<lparr>region_id = rid,
                     full_text = join '' '' (map (\<lambda>g. join '' '' (words g)) groups),
                     lines = map tesseract_line groups\<rparr>))"

subsection \<open>TrOCR (\<open>trocr_engine.py\<close>)\<close>

record line_scan =
  in_line :: bool
  start :: int
  found :: "(int \<times> int) list"

text \<open>One iteration of the loop over \<open>range(len(h_proj))\<close> in \<open>_split_into_lines\<close>.\<close>

definition split_step :: "int \<Rightarrow> nat \<times> nat \<Rightarrow> line_scan \<Rightarrow> line_scan" where
  "split_step min_gap yp s =
     (case yp of (y, p) \<Rightarrow>
        if p > 0 \<and> \<not> in_line s then s\<lparr>in_line := True, start := int y\<rparr>
        else if p = 0 \<and> in_line s
        then (if int y - start s > min_gap
              then s\<lparr>in_line := False, found := found s @ [(start s, int y)]\<rparr>
              else s\<lparr>in_line := False\<rparr>)
        else s)"

definition split_into_lines :: "'p backend \<Rightarrow> 'p image \<Rightarrow> int \<Rightarrow> (int \<times> int) list" where
  "split_into_lines env img min_gap =
     (let gray = trocr_gray env img;
          h_proj = map (\<lambda>row. length (filter (\<lambda>g. g < 200) row)) gray;
          s = fold (split_step min_gap) (zip [0..<length h_proj] h_proj)
                \<lparr>in_line = False, start = 0, found = []\<rparr>;
          ls = (if in_line s \<and> int (length h_proj) - start s > min_gap
                then found s @ [(start s, int (length h_proj))] else found s)
      in if ls = [] then [(0, height img)] else ls)"

text \<open>One iteration of the loop over the line regions: \<open>None\<close> where the source
  continues without a line.\<close>

definition trocr_line :: "'p backend \<Rightarrow> 'p image \<Rightarrow> int \<times> int \<Rightarrow> error + TextLine option" where
  "trocr_line env img ys =
     (case ys of (y_start, y_end) \<Rightarrow>
        (case crop env img (0, y_start, width img, y_end) of
           Inl e \<Rightarrow> Inl e
         | Inr line_img \<Rightarrow>
            if height line_img < 5 then Inr None
            else (case trocr_generate env line_img of
                    Inl e \<Rightarrow> Inl e
                  | Inr decoded \<Rightarrow>
                     let txt = strip decoded
                     in if txt = [] then Inr None
                        else Inr (Some \<lparr>line_text = txt, confidence = 9/10,
                                        bbox_in_region = \<lparr>x1 = 0, y1 = y_start,
                                                           x2 = width img, y2 = y_end\<rparr>\<rparr>))))"

definition trocr_process_cropped_image :: "'p backend \<Rightarrow> 'p image \<Rightarrow> int \<Rightarrow> error + OCRResult" where
  "trocr_process_cropped_image env img0 rid =
     (case load_engine env TrOCREngine of
        Some e \<Rightarrow> Inl e
      | None \<Rightarrow>
         let img = ensure_rgb env img0;
             line_regions = split_into_lines env img 5
         in (case map_result (trocr_line env img) line_regions of
               Inl e \<Rightarrow> Inl e
             | Inr opts \<Rightarrow>
                let ls = concat (map (\<lambda>opt. case opt of None \<Rightarrow> [] | Some l \<Rightarrow> [l]) opts)
                in Inr \<lparr>region_id = rid, full_text = join '' '' (map line_text ls), lines = ls\<rparr>))"

subsection \<open>GOT-OCR (\<open>got_ocr_engine.py\<close>)\<close>

definition got_lines :: "'p image \<Rightarrow> string \<Rightarrow> TextLine list" where
  "got_lines img full =
     (if full = [] then []
      else map (\<lambda>t. \<lparr>line_text = t, confidence = 95/100,
                     bbox_in_region = \<lparr>x1 = 0, y1 = 0, x2 = width img, y2 = height img\<rparr>\<rparr>)
             (filter (\<lambda>t. t \<noteq> []) (map strip (split_newline full))))"

definition got_process_cropped_image :: "'p backend \<Rightarrow> 'p image \<Rightarrow> int \<Rightarrow> error + OCRResult" where
  "got_process_cropped_image env img0 rid =
     (case load_engine env GotOCREngine of
        Some e \<Rightarrow> Inl e
      | None \<Rightarrow>
         let img = ensure_rgb env img0
         in (case got_generate env img of
               Inl e \<Rightarrow> Inl e
             | Inr decoded \<Rightarrow>
                let full = strip decoded
                in Inr \<lparr>region_id = rid, full_text = full, lines = got_lines img full\<rparr>))"

subsection \<open>MinerU (\<open>mineru_engine.py\<close>)\<close>

text \<open>The texts a block contributes: its content, stripped, split at newlines, each
  piece stripped, the empty pieces dropped; nothing for a block without content.\<close>

definition mineru_block_texts :: "mineru_block \<Rightarrow> string list" where
  "mineru_block_texts block =
     (let c = (case content block of None \<Rightarrow> [] | Some s \<Rightarrow> s)
      in if c = [] then []
         else filter (\<lambda>t. t \<noteq> []) (map strip (split_newline (strip c))))"

definition mineru_block_bbox :: "int \<Rightarrow> int \<Rightarrow> mineru_block \<Rightarrow> bbox" where
  "mineru_block_bbox img_w img_h block =
     (case block_bbox block of
        Some [a, b, c, d] \<Rightarrow>
          \<lparr>x1 = py_int (a * real_of_int img_w), y1 = py_int (b * real_of_int img_h),
           x2 = py_int (c * real_of_int img_w), y2 = py_int (d * real_of_int img_h)\<rparr>
      | _ \<Rightarrow> \<lparr>x1 = 0, y1 = 0, x2 = img_w, y2 = img_h\<rparr>)"

definition mineru_block_lines :: "int \<Rightarrow> int \<Rightarrow> mineru_block \<Rightarrow> TextLine list" where
  "mineru_block_lines img_w img_h block =
     map (\<lambda>t. \<lparr>line_text = t, confidence = 9/10,
               bbox_in_region = mineru_block_bbox img_w img_h block\<rparr>)
       (mineru_block_texts block)"

text \<open>Only the call of \<open>two_step_extract\<close> is inside the \<open>try\<close>.\<close>

definition mineru_process_cropped_image :: "'p backend \<Rightarrow> 'p image \<Rightarrow> int \<Rightarrow> error + OCRResult" where
  "mineru_process_cropped_image env img0 rid =
     (case load_engine env MinerUEngine of
        Some e \<Rightarrow> Inl e
      | None \<Rightarrow>
         let img = ensure_rgb env img0
         in (case mineru_two_step_extract env img of
               Inl e \<Rightarrow> Inr \<lparr>region_id = rid, full_text = [], lines = []\<rparr>
             | Inr blocks \<Rightarrow>
                Inr \<lparr>region_id = rid,
                     full_text = join '' '' (concat (map mineru_block_texts blocks)),
                     lines = concat (map (mineru_block_lines (width img) (height img)) blocks)\<rparr>))"

subsection \<open>The shared adapter code (\<open>base.py\<close>, \<open>__init__.py\<close>)\<close>

fun process_cropped_image :: "'p backend \<Rightarrow> engine \<Rightarrow> 'p image \<Rightarrow> int \<Rightarrow> error + OCRResult" where
  "process_cropped_image env EasyOCREngine = easyocr_process_cropped_image env"
| "process_cropped_image env SuryaOCREngine = surya_process_cropped_image env"
| "process_cropped_image env PaddleOCREngine = paddle_process_cropped_image env"
| "process_cropped_image env TesseractEngine = tesseract_process_cropped_image env"
| "process_cropped_image env TrOCREngine = trocr_process_cropped_image env"
| "process_cropped_image env GotOCREngine = got_process_cropped_image env"
| "process_cropped_image env MinerUEngine = mineru_process_cropped_image env"

text \<open>\<open>extract_from_region\<close>: the crop box is the region's bbox; an exception of the
  crop leaves the function before the adapter's \<open>_process_cropped_image\<close> is called.\<close>

definition region_box :: "Region \<Rightarrow> int \<times> int \<times> int \<times> int" where
  "region_box region = (let bb = r_bbox region in (x1 bb, y1 bb, x2 bb, y2 bb))"

definition extract_from_region :: "'p backend \<Rightarrow> engine \<Rightarrow> 'p image \<Rightarrow> Region \<Rightarrow> error + OCRResult" where
  "extract_from_region env eng img region =
     (case crop env img (region_box region) of
        Inl e \<Rightarrow> Inl e
      | Inr cropped \<Rightarrow> process_cropped_image env eng cropped (r_id region))"

text \<open>\<open>extract_text\<close> is the same loop in all seven adapters.\<close>

fun extract_text :: "'p backend \<Rightarrow> engine \<Rightarrow> 'p image \<Rightarrow> Region list \<Rightarrow> error + OCRResult list" where
  "extract_text env eng img [] = Inr []"
| "extract_text env eng img (region # regions) =
     (case extract_from_region env eng img region of
        Inl e \<Rightarrow> Inl e
      | Inr result \<Rightarrow>
         (case extract_text env eng img regions of
            Inl e \<Rightarrow> Inl e
          | Inr results \<Rightarrow> Inr (result # results)))"

definition OCR_ENGINE_NAMES :: "string list" where
  "OCR_ENGINE_NAMES = [''easyocr'', ''surya'', ''paddleocr'', ''tesseract'', ''trocr'', ''got_ocr'', ''mineru'']"

definition get_ocr_engine :: "string \<Rightarrow> error + engine" where
  "get_ocr_engine name =
     (if name = ''easyocr'' then Inr EasyOCREngine
      else if name = ''surya'' then Inr SuryaOCREngine
      else if name = ''paddleocr'' then Inr PaddleOCREngine
      else if name = ''tesseract'' then Inr TesseractEngine
      else if name = ''trocr'' then Inr TrOCREngine
      else if name = ''got_ocr'' then Inr GotOCREngine
      else if name = ''mineru'' then Inr MinerUEngine
      else Inl (Error (''Unknown OCR engine: '' @ name @ ''. Available: ''
                       @ repr_str_list OCR_ENGINE_NAMES)))"

definition engine_name :: "engine \<Rightarrow> string" where
  "engine_name eng =
     (case eng of EasyOCREngine \<Rightarrow> ''easyocr'' | SuryaOCREngine \<Rightarrow> ''surya''
      | PaddleOCREngine \<Rightarrow> ''paddleocr'' | TesseractEngine \<Rightarrow> ''tesseract''
      | TrOCREngine \<Rightarrow> ''trocr'' | GotOCREngine \<Rightarrow> ''got_ocr'' | MinerUEngine \<Rightarrow> ''mineru'')"

text \<open>
  The exception, if any, that the engine's model raises when the adapter calls it on a
  cropped image: the one call of the model for six adapters, the first failing step of
  the loop over the text lines for TrOCR.
\<close>

fun model_error :: "'p backend \<Rightarrow> engine \<Rightarrow> 'p image \<Rightarrow> error option" where
  "model_error env EasyOCREngine img =
     (case easyocr_readtext env img of Inl e \<Rightarrow> Some e | Inr v \<Rightarrow> None)"
| "model_error env SuryaOCREngine img =
     (case surya_recognition env img of Inl e \<Rightarrow> Some e | Inr v \<Rightarrow> None)"
| "model_error env PaddleOCREngine img =
     (case paddle_predict env img of Inl e \<Rightarrow> Some e | Inr v \<Rightarrow> None)"
| "model_error env TesseractEngine img =
     (case tesseract_image_to_data env (ensure_rgb env img) of Inl e \<Rightarrow> Some e | Inr v \<Rightarrow> None)"
| "model_error env TrOCREngine img =
     (case map_result (trocr_line env (ensure_rgb env img))
             (split_into_lines env (ensure_rgb env img) 5) of
        Inl e \<Rightarrow> Some e | Inr v \<Rightarrow> None)"
| "model_error env GotOCREngine img =
     (case got_generate env (ensure_rgb env img) of Inl e \<Rightarrow> Some e | Inr v \<Rightarrow> None)"
| "model_error env MinerUEngine img =
     (case mineru_two_step_extract env (ensure_rgb env img) of Inl e \<Rightarrow> Some e | Inr v \<Rightarrow> None)"

section \<open>Layout detector adapters (\<open>app/processing/layout\<close>)\<close>

text \<open>\<open>enumerate(xs)\<close>.\<close>

definition enumerate0 :: "'a list \<Rightarrow> (nat \<times> 'a) list" where
  "enumerate0 xs = zip [0..<length xs] xs"

text \<open>
  \<open>regions.sort(key=f)\<close> is stable, and \<open>regions.sort(key=f, reverse=True)\<close> keeps the
  original order of elements with equal keys: it is the stable ascending sort of the
  reversed list, reversed.
\<close>

definition sort_reverse :: "('a \<Rightarrow> 'k::linorder) \<Rightarrow> 'a list \<Rightarrow> 'a list" where
  "sort_reverse f xs = rev (sort_key f (rev xs))"

text \<open>The loop \<open>for i, region in enumerate(regions): region.id = i + 1\<close>.\<close>

definition reassign_ids :: "Region list \<Rightarrow> Region list" where
  "reassign_ids regions = map (\<lambda>(i, region). region\<lparr>r_id := int i + 1\<rparr>) (enumerate0 regions)"

subsection \<open>DocLayout-YOLO (\<open>doclayout_yolo.py\<close>)\<close>

definition yolo_region :: "(int \<times> string) list \<Rightarrow> nat \<times> yolo_box \<Rightarrow> Region" where
  "yolo_region nms ib =
     (case ib of (i, box) \<Rightarrow>
        (case xyxy box of (a, b, c, d) \<Rightarrow>
           let class_id = cls box;
               class_name = (case map_of nms class_id of
                               Some n \<Rightarrow> n
                             | None \<Rightarrow> ''class_'' @ str_int class_id)
           in \<lparr>r_id = int i + 1, r_type = class_name, r_confidence = conf box,
               r_bbox = \<lparr>x1 = py_int a, y1 = py_int b, x2 = py_int c, y2 = py_int d\<rparr>\<rparr>))"

definition yolo_regions :: "yolo_result \<Rightarrow> Region list" where
  "yolo_regions result = map (yolo_region (names result)) (enumerate0 (boxes result))"

definition yolo_detect :: "'p backend \<Rightarrow> 'p image \<Rightarrow> error + Region list" where
  "yolo_detect env img =
     (case load_detector env DocLayoutYOLODetector of
        Some e \<Rightarrow> Inl e
      | None \<Rightarrow>
         (case yolo_predict env img of
            Inl e \<Rightarrow> Inl e
          | Inr results \<Rightarrow>
             Inr (reassign_ids (sort_reverse r_confidence (concat (map yolo_regions results))))))"

subsection \<open>DocTR (\<open>doctr_layout.py\<close>)\<close>

definition doctr_region :: "int \<Rightarrow> int \<Rightarrow> nat \<times> doctr_row \<Rightarrow> Region" where
  "doctr_region img_width img_height idet =
     (case idet of (i, (xmin, ymin, xmax, ymax, c)) \<Rightarrow>
        \<lparr>r_id = int i + 1, r_type = ''text'', r_confidence = c,
         r_bbox = \<lparr>x1 = py_int (xmin * real_of_int img_width),
                   y1 = py_int (ymin * real_of_int img_height),
                   x2 = py_int (xmax * real_of_int img_width),
                   y2 = py_int (ymax * real_of_int img_height)\<rparr>\<rparr>)"

definition position_key :: "Region \<Rightarrow> int \<times> int" where
  "position_key r = (y1 (r_bbox r), x1 (r_bbox r))"

definition doctr_detect :: "'p backend \<Rightarrow> 'p image \<Rightarrow> error + Region list" where
  "doctr_detect env img =
     (case load_detector env DocTRLayoutDetector of
        Some e \<Rightarrow> Inl e
      | None \<Rightarrow>
         (case doctr_predict env img of
            Inl e \<Rightarrow> Inl e
          | Inr result \<Rightarrow>
             let regions =
                   (case result of
                      [] \<Rightarrow> []
                    | page_result # _ \<Rightarrow>
                       let rows = (case page_result of WordsDict ws \<Rightarrow> ws | WordsArray ws \<Rightarrow> ws)
                       in map (doctr_region (width img) (height img)) (enumerate0 rows))
             in Inr (reassign_ids (sort_key position_key regions))))"

subsection \<open>Surya layout (\<open>surya_layout.py\<close>)\<close>

definition surya_region :: "nat \<times> surya_layout_box \<Rightarrow> Region" where
  "surya_region ib =
     (case ib of (i, bbox_obj) \<Rightarrow>
        (case sb_bbox bbox_obj of (a, b, c, d) \<Rightarrow>
           \<lparr>r_id = int i + 1,
            r_type = (case sb_label bbox_obj of None \<Rightarrow> ''text'' | Some l \<Rightarrow> l),
            r_confidence = (case sb_confidence bbox_obj of None \<Rightarrow> 1/2 | Some v \<Rightarrow> v),
            r_bbox = \<lparr>x1 = py_int a, y1 = py_int b, x2 = py_int c, y2 = py_int d\<rparr>\<rparr>))"

definition surya_detect :: "'p backend \<Rightarrow> 'p image \<Rightarrow> error + Region list" where
  "surya_detect env img =
     (case load_detector env SuryaLayoutDetector of
        Some e \<Rightarrow> Inl e
      | None \<Rightarrow>
         (case surya_detection env img of
            Inl e \<Rightarrow> Inl e
          | Inr results \<Rightarrow>
             let regions =
                   (case results of
                      [] \<Rightarrow> []
                    | page_result # _ \<Rightarrow> map surya_region (enumerate0 page_result))
             in Inr (reassign_ids (sort_key position_key regions))))"

subsection \<open>The registry (\<open>__init__.py\<close>)\<close>

fun detect :: "'p backend \<Rightarrow> detector \<Rightarrow> 'p image \<Rightarrow> error + Region list" where
  "detect env DocLayoutYOLODetector = yolo_detect env"
| "detect env DocTRLayoutDetector = doctr_detect env"
| "detect env SuryaLayoutDetector = surya_detect env"

text \<open>The number of detections the model returned, as each adapter reads them.\<close>

fun detections :: "'p backend \<Rightarrow> detector \<Rightarrow> 'p image \<Rightarrow> nat" where
  "detections env DocLayoutYOLODetector img =
     (case yolo_predict env img of Inl e \<Rightarrow> 0
      | Inr results \<Rightarrow> sum_list (map (\<lambda>r. length (boxes r)) results))"
| "detections env DocTRLayoutDetector img =
     (case doctr_predict env img of Inl e \<Rightarrow> 0
      | Inr [] \<Rightarrow> 0
      | Inr (WordsDict ws # _) \<Rightarrow> length ws
      | Inr (WordsArray ws # _) \<Rightarrow> length ws)"
| "detections env SuryaLayoutDetector img =
     (case surya_detection env img of Inl e \<Rightarrow> 0
      | Inr [] \<Rightarrow> 0
      | Inr (page_result # _) \<Rightarrow> length page_result)"

definition LAYOUT_DETECTOR_NAMES :: "string list" where
  "LAYOUT_DETECTOR_NAMES = [''doclayout_yolo'', ''doctr'', ''surya'']"

definition get_layout_detector :: "string \<Rightarrow> error + detector" where
  "get_layout_detector name =
     (if name = ''doclayout_yolo'' then Inr DocLayoutYOLODetector
      else if name = ''doctr'' then Inr DocTRLayoutDetector
      else if name = ''surya'' then Inr SuryaLayoutDetector
      else Inl (Error (''Unknown layout detector: '' @ name @ ''. Available: ''
                       @ repr_str_list LAYOUT_DETECTOR_NAMES)))"

definition detector_name :: "detector \<Rightarrow> string" where
  "detector_name d =
     (case d of DocLayoutYOLODetector \<Rightarrow> ''doclayout_yolo''
      | DocTRLayoutDetector \<Rightarrow> ''doctr'' | SuryaLayoutDetector \<Rightarrow> ''surya'')"

section \<open>Pipeline orchestrator (\<open>app/services/ocr_pipeline.py\<close>, \<open>app/routers/tests.py\<close>)\<close>

text \<open>The dictionaries built by the two \<open>to_dict\<close> methods and by the pipeline.\<close>

record layout_results =
  lr_library :: "string option"
  lr_num_regions :: "nat option"
  lr_regions :: "Region list"
  lr_method :: "string option"

record ocr_results =
  or_library :: string
  or_num_regions :: nat
  or_regions :: "OCRResult list"
  or_full_text :: "string option"
  or_text_regions :: "(string \<times> real) list option"

record doc_results =
  dr_layout_results :: layout_results
  dr_ocr_results :: ocr_results
  dr_extracted_fields :: "ExtractedField list"
  dr_overall_accuracy :: real

definition layout_to_dict :: "detector \<Rightarrow> Region list \<Rightarrow> layout_results" where
  "layout_to_dict d regions =
     \<lparr>lr_library = Some (detector_name d), lr_num_regions = Some (length regions),
      lr_regions = regions, lr_method = None\<rparr>"

definition ocr_to_dict :: "engine \<Rightarrow> OCRResult list \<Rightarrow> ocr_results" where
  "ocr_to_dict eng results =
     \<lparr>or_library = engine_name eng, or_num_regions = length results,
      or_regions = results, or_full_text = None, or_text_regions = None\<rparr>"

text \<open>\<open>app/models/batch.py\<close> and \<open>app/models/test_run.py\<close>, the fields the pipeline reads.\<close>

record SyntheticDocument =
  doc_id :: string
  storage_path :: string
  field_values :: "(string \<times> string) list"
  is_skewed :: bool

record BatchInDB =
  batch_id :: string
  batch_type :: string
  documents :: "SyntheticDocument list"

datatype TestStatus = PENDING | RUNNING | COMPLETED | FAILED

record TestRunInDB =
  status :: TestStatus
  error_message :: "string option"
  processed_documents :: int
  completed :: bool

record stored_result =
  sr_test_run_id :: string
  sr_document_id :: string
  sr_batch_id :: string
  sr_results :: doc_results

text \<open>
  The world the pipeline acts on: the Firestore collections it reads and writes (each
  a dictionary from document id to document), and the
  trace of its calls to the blob store, the layout detectors and the OCR engines.
  Timestamps and generated identifiers are left out.
\<close>

datatype call = Download string | LayoutDetect detector | OcrExtract engine

fun download_path :: "call \<Rightarrow> string list" where
  "download_path (Download path) = [path]"
| "download_path (LayoutDetect d) = []"
| "download_path (OcrExtract eng) = []"

record world =
  batches :: "(string \<times> BatchInDB) list"
  test_runs :: "(string \<times> TestRunInDB) list"
  results :: "stored_result list"
  calls :: "call list"

text \<open>\<open>FirestoreService.update_test_run_status\<close> and \<open>create_result\<close>.\<close>

definition update_test_run_status :: "string \<Rightarrow> TestStatus \<Rightarrow> int option \<Rightarrow> string option \<Rightarrow> world \<Rightarrow> world" where
  "update_test_run_status run_id st processed err w =
     (case map_of (test_runs w) run_id of
        None \<Rightarrow> w
      | Some run \<Rightarrow>
         let run1 = run\<lparr>status := st\<rparr>;
             run2 = (case processed of None \<Rightarrow> run1 | Some n \<Rightarrow> run1\<lparr>processed_documents := n\<rparr>);
             run3 = (case err of None \<Rightarrow> run2 | Some m \<Rightarrow> run2\<lparr>error_message := Some m\<rparr>);
             run4 = (if st = COMPLETED \<or> st = FAILED then run3\<lparr>completed := True\<rparr> else run3)
         in w\<lparr>test_runs := dict_set run_id run4 (test_runs w)\<rparr>)"

definition create_result :: "string \<Rightarrow> string \<Rightarrow> string \<Rightarrow> doc_results \<Rightarrow> world \<Rightarrow> world" where
  "create_result run_id document_id b_id res w =
     w\<lparr>results := results w @ [\<lparr>sr_test_run_id = run_id, sr_document_id = document_id,
                                  sr_batch_id = b_id, sr_results = res\<rparr>]\<rparr>"

text \<open>The blobs the pipeline has asked the store for, in order.\<close>

definition downloads :: "world \<Rightarrow> string list" where
  "downloads w = concat (map download_path (calls w))"

definition log_call :: "call \<Rightarrow> world \<Rightarrow> world" where
  "log_call c w = w\<lparr>calls := calls w @ [c]\<rparr>"

text \<open>The first two statements of both processing functions: download the blob, open
  it and convert it to RGB.\<close>

definition load_document_image :: "'p backend \<Rightarrow> SyntheticDocument \<Rightarrow> error + 'p image" where
  "load_document_image env document =
     (case download_file env (storage_path document) of
        Inl e \<Rightarrow> Inl e
      | Inr image_bytes \<Rightarrow>
         (case open_image env image_bytes of
            Inl e \<Rightarrow> Inl e
          | Inr img \<Rightarrow> Inr (convert env img ''RGB'')))"

text \<open>\<open>process_document\<close>.\<close>

definition process_document ::
  "'p backend \<Rightarrow> similarity \<Rightarrow> SyntheticDocument \<Rightarrow> string \<Rightarrow> string \<Rightarrow> world
   \<Rightarrow> (error + doc_results) \<times> world" where
  "process_document env ratio document layout_library ocr_library w =
     (let w1 = log_call (Download (storage_path document)) w
      in case load_document_image env document of
           Inl e \<Rightarrow> (Inl e, w1)
         | Inr img \<Rightarrow>
            (case get_layout_detector layout_library of
               Inl e \<Rightarrow> (Inl e, w1)
             | Inr layout_detector \<Rightarrow>
                (case get_ocr_engine ocr_library of
                   Inl e \<Rightarrow> (Inl e, w1)
                 | Inr ocr_engine \<Rightarrow>
                    let w2 = log_call (LayoutDetect layout_detector) w1
                    in (case detect env layout_detector img of
                          Inl e \<Rightarrow> (Inl e, w2)
                        | Inr regions \<Rightarrow>
                           let w3 = log_call (OcrExtract ocr_engine) w2
                           in (case extract_text env ocr_engine img regions of
                                 Inl e \<Rightarrow> (Inl e, w3)
                               | Inr ocr_results_list \<Rightarrow>
                                  let extracted = match_fields ratio (field_values document)
                                                    ocr_results_list
                                  in (Inr \<lparr>dr_layout_results = layout_to_dict layout_detector regions,
                                           dr_ocr_results = ocr_to_dict ocr_engine ocr_results_list,
                                           dr_extracted_fields = extracted,
                                           dr_overall_accuracy = calculate_accuracy extracted\<rparr>,
                                      w3))))))"

text \<open>The pseudo-region of full-text mode (lines 172-177).\<close>

definition full_region :: "'p image \<Rightarrow> Region" where
  "full_region img =
     \<lparr>r_id = 0, r_type = ''full_page'', r_confidence = 1,
      r_bbox = \<lparr>x1 = 0, y1 = 0, x2 = width img, y2 = height img\<rparr>\<rparr>"

text \<open>\<open>process_document_full_text\<close>.\<close>

definition process_document_full_text ::
  "'p backend \<Rightarrow> SyntheticDocument \<Rightarrow> string \<Rightarrow> world \<Rightarrow> (error + doc_results) \<times> world" where
  "process_document_full_text env document ocr_library w =
     (let w1 = log_call (Download (storage_path document)) w
      in case load_document_image env document of
           Inl e \<Rightarrow> (Inl e, w1)
         | Inr img \<Rightarrow>
            (case get_ocr_engine ocr_library of
               Inl e \<Rightarrow> (Inl e, w1)
             | Inr ocr_engine \<Rightarrow>
                let w2 = log_call (OcrExtract ocr_engine) w1
                in (case extract_text env ocr_engine img [full_region img] of
                      Inl e \<Rightarrow> (Inl e, w2)
                    | Inr ocr_results_list \<Rightarrow>
                       let ocr = (ocr_to_dict ocr_engine ocr_results_list)
                             \<lparr>or_full_text := Some (join '' '' (map full_text ocr_results_list)),
                              or_text_regions :=
                                Some (concat (map (\<lambda>r. map (\<lambda>l. (line_text l, confidence l)) (lines r))
                                                ocr_results_list))\<rparr>
                       in (Inr \<lparr>dr_layout_results =
                                  \<lparr>lr_library = None, lr_num_regions = None, lr_regions = [],
                                   lr_method = Some ''none (full-text OCR)''\<rparr>,
                                dr_ocr_results = ocr,
                                dr_extracted_fields = [],
                                dr_overall_accuracy = 0\<rparr>,
                           w2))))"

text \<open>The first statement of the loop body of \<open>process_batch\<close>: the document is
  processed in the mode of the batch.\<close>

definition process_batch_document ::
  "'p backend \<Rightarrow> similarity \<Rightarrow> BatchInDB \<Rightarrow> string \<Rightarrow> string \<Rightarrow> SyntheticDocument \<Rightarrow> world
   \<Rightarrow> (error + doc_results) \<times> world" where
  "process_batch_document env ratio batch layout_library ocr_library document w =
     (let is_handwritten = (batch_type batch = ''handwritten'')
      in if is_handwritten
         then process_document_full_text env document ocr_library w
         else process_document env ratio document layout_library ocr_library w)"

text \<open>
  The loop of \<open>process_batch\<close> over \<open>enumerate(batch.documents)\<close>, from index \<open>i\<close> on. An
  exception of the document's processing leaves the loop at once; otherwise the result
  is stored, appended, and the progress callback is called with \<open>i + 1\<close> and the size of
  the batch.
\<close>

fun process_batch_loop ::
  "'p backend \<Rightarrow> similarity \<Rightarrow> BatchInDB \<Rightarrow> string \<Rightarrow> string \<Rightarrow> string
   \<Rightarrow> (int \<Rightarrow> int \<Rightarrow> world \<Rightarrow> world) option \<Rightarrow> nat \<Rightarrow> SyntheticDocument list \<Rightarrow> world
   \<Rightarrow> (error + (string \<times> doc_results) list) \<times> world" where
  "process_batch_loop env ratio batch layout_library ocr_library test_run_id cb i [] w = (Inr [], w)"
| "process_batch_loop env ratio batch layout_library ocr_library test_run_id cb i (document # rest) w =
     (case process_batch_document env ratio batch layout_library ocr_library document w of
        (Inl e, w1) \<Rightarrow> (Inl e, w1)
      | (Inr res, w1) \<Rightarrow>
            let w2 = create_result test_run_id (doc_id document) (batch_id batch) res w1;
                w3 = (case cb of
                        None \<Rightarrow> w2
                      | Some callback \<Rightarrow>
                         callback (int i + 1) (int (length (documents batch))) w2)
            in (case process_batch_loop env ratio batch layout_library ocr_library test_run_id
                        cb (Suc i) rest w3 of
                  (Inl e, w4) \<Rightarrow> (Inl e, w4)
                | (Inr others, w4) \<Rightarrow> (Inr ((doc_id document, res) # others), w4)))"

definition process_batch ::
  "'p backend \<Rightarrow> similarity \<Rightarrow> BatchInDB \<Rightarrow> string \<Rightarrow> string \<Rightarrow> string
   \<Rightarrow> (int \<Rightarrow> int \<Rightarrow> world \<Rightarrow> world) option \<Rightarrow> world
   \<Rightarrow> (error + (string \<times> doc_results) list) \<times> world" where
  "process_batch env ratio batch layout_library ocr_library test_run_id cb w =
     process_batch_loop env ratio batch layout_library ocr_library test_run_id cb 0
       (documents batch) w"

text \<open>The progress callback that \<open>run_test_background\<close> passes to \<open>process_batch\<close>.\<close>

definition progress_callback :: "string \<Rightarrow> int \<Rightarrow> int \<Rightarrow> int \<Rightarrow> world \<Rightarrow> world" where
  "progress_callback test_run_id total_processed current total_count =
     update_test_run_status test_run_id RUNNING (Some (total_processed + current)) None"

text \<open>
  The loop of \<open>run_test_background\<close> over \<open>batch_ids\<close>, carrying \<open>total_processed\<close>; a
  missing batch is skipped.
\<close>

fun run_batches ::
  "'p backend \<Rightarrow> similarity \<Rightarrow> string \<Rightarrow> string \<Rightarrow> string \<Rightarrow> int \<Rightarrow> string list \<Rightarrow> world
   \<Rightarrow> (error + int) \<times> world" where
  "run_batches env ratio test_run_id layout_library ocr_library total_processed [] w =
     (Inr total_processed, w)"
| "run_batches env ratio test_run_id layout_library ocr_library total_processed (b_id # rest) w =
     (case map_of (batches w) b_id of
        None \<Rightarrow> run_batches env ratio test_run_id layout_library ocr_library total_processed rest w
      | Some batch \<Rightarrow>
         (case process_batch env ratio batch layout_library ocr_library test_run_id
                 (Some (progress_callback test_run_id total_processed)) w of
            (Inl e, w1) \<Rightarrow> (Inl e, w1)
          | (Inr rs, w1) \<Rightarrow>
             run_batches env ratio test_run_id layout_library ocr_library
               (total_processed + int (length (documents batch))) rest w1))"

text \<open>\<open>run_test_background\<close>: the \<open>try\<close> block and its \<open>except Exception\<close> handler.\<close>

definition run_test_background ::
  "'p backend \<Rightarrow> similarity \<Rightarrow> string \<Rightarrow> string list \<Rightarrow> string \<Rightarrow> string \<Rightarrow> world \<Rightarrow> world" where
  "run_test_background env ratio test_run_id batch_ids layout_library ocr_library w =
     (let w1 = update_test_run_status test_run_id RUNNING None None w
      in case run_batches env ratio test_run_id layout_library ocr_library 0 batch_ids w1 of
           (Inr total_processed, w2) \<Rightarrow>
             update_test_run_status test_run_id COMPLETED (Some total_processed) None w2
         | (Inl e, w2) \<Rightarrow>
             update_test_run_status test_run_id FAILED None (Some (str_of_error e)) w2)"


section \<open>Synthetic document generator (\<open>app/services/synthetic_generator.py\<close>)\<close>

text \<open>The value pools \<open>FIELD_TYPE_DATA\<close> and \<open>DEFAULT_SYNTHETIC_DATA\<close>, as dictionaries in
  the order of the source.\<close>

definition FIELD_TYPE_DATA :: "(string \<times> string list) list" where
  "FIELD_TYPE_DATA =
     [(''numeric_short'',
        [''123'', ''456'', ''789'', ''012'', ''345'', ''678'', ''901'', ''234'',
         ''5678'', ''9012'', ''1234'', ''4567'', ''8901'', ''42'', ''307'', ''88'']),
      (''text_short'',
        [''TX'', ''CA'', ''NY'', ''FL'', ''IL'', ''PA'', ''OH'', ''GA'',
         ''Civil'', ''Criminal'', ''Family'', ''Probate'', ''Juvenile'',
         ''Plaintiff'', ''Defendant'', ''Appellant'', ''Respondent'',
         ''Dallas'', ''Harris'', ''Travis'', ''Bexar'', ''Tarrant'', ''El Paso'']),
      (''sentence'',
        [''The defendant failed to appear at the scheduled hearing.'',
         ''Plaintiff requests summary judgment on all counts.'',
         ''Motion to dismiss is hereby granted.'',
         ''The court finds sufficient evidence to proceed.'',
         ''All parties have been duly notified of the hearing date.'',
         ''Defendant is ordered to pay restitution to the plaintiff.'',
         ''The case is hereby continued to the next available date.'',
         ''Witness testimony corroborates the plaintiff'' @ [CHR 0x27] @ ''s claims.'']),
      (''full_name'',
        [''John Smith'', ''Jane Doe'', ''Robert Johnson'', ''Maria Garcia'',
         ''Michael Brown'', ''Emily Davis'', ''David Wilson'', ''Sarah Miller'',
         ''James Taylor'', ''Jennifer Anderson'', ''William Thomas'', ''Linda Martinez'',
         ''Charles Jordan'', ''Patricia Williams'', ''Daniel Lee'', ''Angela Robinson'',
         ''Christopher Harris'', ''Amanda Clark'', ''Matthew Wright'', ''Stephanie King'']),
      (''day_month'',
        [''January 15'', ''February 20'', ''March 10'', ''April 5'',
         ''May 25'', ''June 30'', ''July 4'', ''August 15'',
         ''September 1'', ''October 12'', ''November 28'', ''December 25'',
         ''January 3'', ''March 22'', ''June 17'', ''September 30'']),
      (''2_digit_year'', [''20'', ''21'', ''22'', ''23'', ''24'', ''25'', ''26'']),
      (''4_digit_year'', [''2020'', ''2021'', ''2022'', ''2023'', ''2024'', ''2025'', ''2026''])]"

text \<open>\<open>FIELD_TYPE_DATA[key]\<close> for a key of the dictionary.\<close>

definition field_type_pool :: "string \<Rightarrow> string list" where
  "field_type_pool key = (case map_of FIELD_TYPE_DATA key of Some pool \<Rightarrow> pool | None \<Rightarrow> [])"

definition DEFAULT_SYNTHETIC_DATA :: "(string \<times> string list) list" where
  "DEFAULT_SYNTHETIC_DATA =
     [(''defendant_name'', field_type_pool ''full_name''),
      (''plaintiff_name'',
        [''ABC Corporation'', ''XYZ Inc.'', ''State of Texas'', ''City of Dallas'',
         ''First National Bank'', ''Johnson & Associates'', ''Smith Holdings LLC'']),
      (''case_number'',
        [''2024-CV-001234'', ''2024-CV-005678'', ''2023-CV-009012'', ''2024-CR-003456'',
         ''DC-2024-0001'', ''DC-2024-0042'', ''CC-2024-1234'', ''JP-2024-5678'']),
      (''date'',
        [''January 15, 2024'', ''February 20, 2024'', ''March 10, 2024'',
         ''April 5, 2024'', ''May 25, 2024'', ''June 30, 2024'']),
      (''default'', field_type_pool ''text_short'')]"

text \<open>\<open>key in s\<close> on strings: \<open>key\<close> occurs in \<open>s\<close> as a contiguous piece.\<close>

fun starts_with :: "string \<Rightarrow> string \<Rightarrow> bool" where
  "starts_with [] s = True"
| "starts_with (k # ks) [] = False"
| "starts_with (k # ks) (c # cs) = (k = c \<and> starts_with ks cs)"

fun contains :: "string \<Rightarrow> string \<Rightarrow> bool" where
  "contains key [] = (key = [])"
| "contains key (c # cs) = (starts_with key (c # cs) \<or> contains key cs)"

text \<open>
  \<open>random.choice(seq)\<close>: the element at an index below the length, which the generator
  draws; the draw is the parameter \<open>rnd\<close>. An empty sequence raises \<open>IndexError\<close>.
\<close>

definition random_choice :: "nat \<Rightarrow> string list \<Rightarrow> error + string" where
  "random_choice rnd xs =
     (if xs = [] then Inl (Error ''Cannot choose from an empty sequence'')
      else Inr (xs ! (rnd mod length xs)))"

text \<open>\<open>DEFAULT_SYNTHETIC_DATA[key]\<close> for a key of the dictionary.\<close>

definition default_data_pool :: "string \<Rightarrow> string list" where
  "default_data_pool key =
     (case map_of DEFAULT_SYNTHETIC_DATA key of Some pool \<Rightarrow> pool | None \<Rightarrow> [])"

text \<open>\<open>_get_synthetic_value\<close>. An absent or empty \<open>custom_options\<close> is falsy, as is an
  absent or empty \<open>field_type\<close>; the loop over the legacy dictionary returns at the first
  key contained in the lowered field name.\<close>

definition get_synthetic_value :: "nat \<Rightarrow> string \<Rightarrow> string list option \<Rightarrow> string option \<Rightarrow> error + string" where
  "get_synthetic_value rnd fname custom_options field_type =
     (let opts = (case custom_options of None \<Rightarrow> [] | Some os \<Rightarrow> os);
          ftype = (case field_type of None \<Rightarrow> [] | Some t \<Rightarrow> t)
      in if opts \<noteq> [] then random_choice rnd opts
         else if ftype \<noteq> [] \<and> map_of FIELD_TYPE_DATA ftype \<noteq> None
         then random_choice rnd (field_type_pool ftype)
         else
           let field_lower = lower fname
           in (case filter (\<lambda>kv. contains (fst kv) field_lower) DEFAULT_SYNTHETIC_DATA of
                 kv # _ \<Rightarrow> random_choice rnd (snd kv)
               | [] \<Rightarrow> random_choice rnd (default_data_pool ''default'')))"

text \<open>The legacy pool of a field name: that of the first legacy key contained in the
  lowered name, the \<open>default\<close> pool when there is none.\<close>

definition legacy_pool :: "string \<Rightarrow> string list" where
  "legacy_pool fname =
     (case find (\<lambda>kv. contains (fst kv) (lower fname)) DEFAULT_SYNTHETIC_DATA of
        Some kv \<Rightarrow> snd kv
      | None \<Rightarrow> default_data_pool ''default'')"

section \<open>Scan simulator (\<open>app/services/scan_simulator.py\<close>)\<close>

record preset_params =
  rotation_range :: real
  noise_amount :: real
  blur_radius :: real
  brightness_range :: "real \<times> real"
  contrast_range :: "real \<times> real"
  paper_tone :: "int \<times> int \<times> int"

definition PRESETS :: "(string \<times> preset_params) list" where
  "PRESETS =
     [(''light'', \<lparr>rotation_range = 3/2, noise_amount = 3, blur_radius = 3/10,
                   brightness_range = (95/100, 105/100), contrast_range = (95/100, 105/100),
                   paper_tone = (245, 240, 230)\<rparr>),
      (''medium'', \<lparr>rotation_range = 3, noise_amount = 8, blur_radius = 7/10,
                    brightness_range = (85/100, 115/100), contrast_range = (85/100, 115/100),
                    paper_tone = (235, 228, 215)\<rparr>),
      (''heavy'', \<lparr>rotation_range = 5, noise_amount = 15, blur_radius = 12/10,
                   brightness_range = (75/100, 125/100), contrast_range = (75/100, 130/100),
                   paper_tone = (225, 215, 200)\<rparr>)]"

text \<open>\<open>PRESETS.get(preset, PRESETS["medium"])\<close>.\<close>

definition preset_of :: "string \<Rightarrow> preset_params" where
  "preset_of preset =
     (case map_of PRESETS preset of
        Some params \<Rightarrow> params
      | None \<Rightarrow> (case map_of PRESETS ''medium'' of
                   Some params \<Rightarrow> params
                 | None \<Rightarrow> \<lparr>rotation_range = 0, noise_amount = 0, blur_radius = 0,
                             brightness_range = (1, 1), contrast_range = (1, 1),
                             paper_tone = (0, 0, 0)\<rparr>))"

text \<open>
  The Pillow and NumPy operations the simulator calls, on images with abstract pixel
  content: \<open>image.copy().convert("RGB")\<close>, \<open>Image.new\<close>, \<open>Image.blend\<close>,
  \<open>rotate(angle, expand=False, fillcolor=white)\<close>, the brightness and contrast enhancers,
  \<open>GaussianBlur\<close>, and the addition of clipped Gaussian noise to the pixel array.
\<close>

record ('p, 'n) pil =
  copy_rgb :: "'p image \<Rightarrow> 'p image"
  new_image :: "string \<Rightarrow> int \<times> int \<Rightarrow> int \<times> int \<times> int \<Rightarrow> 'p image"
  blend :: "'p image \<Rightarrow> 'p image \<Rightarrow> real \<Rightarrow> 'p image"
  rotate_image :: "'p image \<Rightarrow> real \<Rightarrow> 'p image"
  enhance_brightness :: "'p image \<Rightarrow> real \<Rightarrow> 'p image"
  enhance_contrast :: "'p image \<Rightarrow> real \<Rightarrow> 'p image"
  gaussian_blur :: "'p image \<Rightarrow> real \<Rightarrow> 'p image"
  add_noise :: "'p image \<Rightarrow> real \<Rightarrow> 'n \<Rightarrow> 'p image"

text \<open>What Pillow and NumPy document of these operations: a new image has the size
  asked for, the blend of two images of one size has that size, and no other operation
  changes the size of the image (the rotation does not expand, the noise array has the
  shape of the pixel array).\<close>

definition pil_keeps_size :: "('p, 'n) pil \<Rightarrow> bool" where
  "pil_keeps_size ops =
     (\<forall>img img2 x nz.
        width (copy_rgb ops img) = width img \<and> height (copy_rgb ops img) = height img
      \<and> (\<forall>m sz c. width (new_image ops m sz c) = fst sz \<and> height (new_image ops m sz c) = snd sz)
      \<and> (width img2 = width img \<and> height img2 = height img \<longrightarrow>
           width (blend ops img img2 x) = width img \<and> height (blend ops img img2 x) = height img)
      \<and> width (rotate_image ops img x) = width img \<and> height (rotate_image ops img x) = height img
      \<and> width (enhance_brightness ops img x) = width img
      \<and> height (enhance_brightness ops img x) = height img
      \<and> width (enhance_contrast ops img x) = width img
      \<and> height (enhance_contrast ops img x) = height img
      \<and> width (gaussian_blur ops img x) = width img \<and> height (gaussian_blur ops img x) = height img
      \<and> width (add_noise ops img x nz) = width img \<and> height (add_noise ops img x nz) = height img)"

text \<open>The four draws of \<open>random.uniform\<close>, each as a fraction in \<open>[0, 1]\<close> of its interval,
  and the noise array drawn by \<open>np.random.normal\<close>.\<close>

record 'n draws =
  u_angle :: real
  u_brightness :: real
  u_contrast :: real
  u_blur :: real
  noise :: 'n

definition uniform :: "real \<Rightarrow> real \<Rightarrow> real \<Rightarrow> real" where
  "uniform a b u = a + (b - a) * u"

text \<open>\<open>apply_scan_effects\<close>.\<close>

definition apply_scan_effects :: "('p, 'n) pil \<Rightarrow> 'n draws \<Rightarrow> 'p image \<Rightarrow> string \<Rightarrow> 'p image" where
  "apply_scan_effects ops rnd image0 preset =
     (let params = preset_of preset;
          img1 = copy_rgb ops image0;
          tone_layer = new_image ops ''RGB'' (width img1, height img1) (paper_tone params);
          img2 = blend ops img1 tone_layer (8/100);
          angle = uniform (- rotation_range params) (rotation_range params) (u_angle rnd);
          img3 = rotate_image ops img2 angle;
          brightness_factor = uniform (fst (brightness_range params))
                                (snd (brightness_range params)) (u_brightness rnd);
          img4 = enhance_brightness ops img3 brightness_factor;
          contrast_factor = uniform (fst (contrast_range params))
                              (snd (contrast_range params)) (u_contrast rnd);
          img5 = enhance_contrast ops img4 contrast_factor;
          img6 = (if blur_radius params > 0
                  then gaussian_blur ops img5 (uniform 0 (blur_radius params) (u_blur rnd))
                  else img5);
          img7 = (if noise_amount params > 0
                  then add_noise ops img6 (noise_amount params) (noise rnd)
                  else img6)
      in img7)"

text \<open>Sample operations that relabel the pixel content and keep the size.\<close>

definition sample_pil :: "(unit, unit) pil" where
  "sample_pil =
     \<lparr>copy_rgb = (\<lambda>img. img\<lparr>mode := ''RGB''\<rparr>),
      new_image = (\<lambda>m sz c. \<lparr>width = fst sz, height = snd sz, mode = m, pixels = ()\<rparr>),
      blend = (\<lambda>img img2 a. img),
      rotate_image = (\<lambda>img a. img),
      enhance_brightness = (\<lambda>img f. img),
      enhance_contrast = (\<lambda>img f. img),
      gaussian_blur = (\<lambda>img r. img),
      add_noise = (\<lambda>img s nz. img)\<rparr>"

definition sample_draws :: "unit draws" where
  "sample_draws = \<lparr>u_angle = 1/2, u_brightness = 1/2, u_contrast = 1/2, u_blur = 1/2, noise = ()\<rparr>"

section \<open>A sample backend for the closed instances\<close>

text \<open>
  A backend over images without pixel content. Its blob store returns the path as the
  blob and fails for \<open>missing.png\<close>; \<open>blank.png\<close> opens as an image of width 0; the
  EasyOCR, Tesseract and MinerU models and the three detection models raise on an image
  of width 0; GOT-OCR decodes two lines of text.
\<close>

definition sample_image :: "int \<Rightarrow> int \<Rightarrow> unit image" where
  "sample_image w h = \<lparr>width = w, height = h, mode = ''RGB'', pixels = ()\<rparr>"

definition two_lines :: string where
  "two_lines = ''Civil'' @ [newline] @ ''Case''"

definition sample_backend :: "unit backend" where
  "sample_backend =
     \<lparr>crop_pixels = (\<lambda>p b. p),
      convert_pixels = (\<lambda>m p. p),
      download_file = (\<lambda>path. if path = ''missing.png'' then Inl (Error ''blob not found'')
                               else Inr path),
      open_image = (\<lambda>blob. Inr (sample_image (if blob = ''blank.png'' then 0 else 200) 100)),
      load_engine = (\<lambda>eng. None),
      load_detector = (\<lambda>d. None),
      easyocr_readtext = (\<lambda>img. if width img = 0 then Inl (Error ''easyocr failed'')
                                  else Inr [([(0, 0), (120, 0), (120, 20), (0, 20)],
                                             ''2024-CV-001234'', 9/10)]),
      surya_recognition = (\<lambda>img. Inr [[\<lparr>sl_text = ''Dallas'', sl_confidence = None,
                                           sl_bbox = None\<rparr>]]),
      paddle_predict = (\<lambda>img. Inr [\<lparr>rec_texts = Some [''TX'', [], ''CA''],
                                       rec_scores = Some [1], rec_boxes = None\<rparr>]),
      tesseract_image_to_data = (\<lambda>img. if width img = 0 then Inl (Error ''tesseract failed'')
                                  else Inr [\<lparr>tw_text = ''Civil'', tw_conf = 90, tw_line_num = 1,
                                             tw_left = 0, tw_top = 0, tw_width = 40,
                                             tw_height = 10\<rparr>]),
      trocr_gray = (\<lambda>img. []),
      trocr_generate = (\<lambda>img. Inr ''John Smith''),
      got_generate = (\<lambda>img. Inr two_lines),
      mineru_two_step_extract = (\<lambda>img. if width img = 0 then Inl (Error ''mineru failed'')
                                  else Inr [\<lparr>content = Some ''Harris'', block_type = Some ''text'',
                                             block_bbox = None\<rparr>]),
      yolo_predict = (\<lambda>img. if width img = 0 then Inl (Error ''detection failed'')
                              else Inr [\<lparr>boxes = [\<lparr>xyxy = (0, 0, 100, 20), conf = 1/2, cls = 0\<rparr>,
                                                   \<lparr>xyxy = (0, 30, 100, 50), conf = 3/4, cls = 7\<rparr>],
                                         names = [(0, ''plain text'')]\<rparr>]),
      doctr_predict = (\<lambda>img. if width img = 0 then Inl (Error ''detection failed'')
                               else Inr [WordsDict [(0, 0, 1, 1, 1)]]),
      surya_detection = (\<lambda>img. if width img = 0 then Inl (Error ''detection failed'')
                                 else Inr [[]])\<rparr>"

definition sample_region :: "int \<Rightarrow> int \<Rightarrow> int \<Rightarrow> Region" where
  "sample_region i a b =
     \<lparr>r_id = i, r_type = ''text'', r_confidence = 1,
      r_bbox = \<lparr>x1 = a, y1 = 0, x2 = b, y2 = 20\<rparr>\<rparr>"

definition harris_result :: "int \<Rightarrow> int \<Rightarrow> OCRResult" where
  "harris_result i w =
     \<lparr>region_id = i, full_text = ''Harris'',
      lines = [\<lparr>line_text = ''Harris'', confidence = 9/10,
                bbox_in_region = \<lparr>x1 = 0, y1 = 0, x2 = w, y2 = 20\<rparr>\<rparr>]\<rparr>"

definition empty_result :: "int \<Rightarrow> OCRResult" where
  "empty_result i = \<lparr>region_id = i, full_text = [], lines = []\<rparr>"

definition two_lines_result :: OCRResult where
  "two_lines_result =
     \<lparr>region_id = 1, full_text = two_lines,
      lines = [\<lparr>line_text = ''Civil'', confidence = 95/100,
                bbox_in_region = \<lparr>x1 = 0, y1 = 0, x2 = 50, y2 = 20\<rparr>\<rparr>,
               \<lparr>line_text = ''Case'', confidence = 95/100,
                bbox_in_region = \<lparr>x1 = 0, y1 = 0, x2 = 50, y2 = 20\<rparr>\<rparr>]\<rparr>"

definition three_regions :: "Region list" where
  "three_regions = [sample_region 1 0 50, sample_region 2 50 50, sample_region 3 50 90]"

definition yolo_regions_sample :: "Region list" where
  "yolo_regions_sample =
     [\<lparr>r_id = 1, r_type = ''class_7'', r_confidence = 3/4,
       r_bbox = \<lparr>x1 = 0, y1 = 30, x2 = 100, y2 = 50\<rparr>\<rparr>,
      \<lparr>r_id = 2, r_type = ''plain text'', r_confidence = 1/2,
       r_bbox = \<lparr>x1 = 0, y1 = 0, x2 = 100, y2 = 20\<rparr>\<rparr>]"

text \<open>A batch of three documents whose second document is blank, a batch of one
  document, a document for full-text mode, and a world holding the two batches and one
  pending test run.\<close>

definition sample_document :: "string \<Rightarrow> string \<Rightarrow> SyntheticDocument" where
  "sample_document i path =
     \<lparr>doc_id = i, storage_path = path,
      field_values = [(''case_number'', ''2024-CV-001234'')], is_skewed = False\<rparr>"

definition sample_batch :: BatchInDB where
  "sample_batch =
     \<lparr>batch_id = ''b1'', batch_type = ''synthetic'',
      documents = [sample_document ''d1'' ''one.png'', sample_document ''d2'' ''blank.png'',
                   sample_document ''d3'' ''three.png'']\<rparr>"

definition scan_document :: SyntheticDocument where
  "scan_document = \<lparr>doc_id = ''h1'', storage_path = ''scan.png'', field_values = [],
                     is_skewed = False\<rparr>"

definition earlier_batch :: BatchInDB where
  "earlier_batch =
     \<lparr>batch_id = ''b0'', batch_type = ''synthetic'',
      documents = [sample_document ''d0'' ''zero.png'']\<rparr>"

definition sample_world :: world where
  "sample_world =
     \<lparr>batches = [(''b0'', earlier_batch), (''b1'', sample_batch)],
      test_runs = [(''run1'', \<lparr>status = PENDING, error_message = None,
                                processed_documents = 0, completed = False\<rparr>)],
      results = [], calls = []\<rparr>"

text \<open>What full-text mode returns for \<open>scan_document\<close> with EasyOCR, and the world after.\<close>

definition scan_region_result :: OCRResult where
  "scan_region_result =
     \<lparr>region_id = 0, full_text = ''2024-CV-001234'',
      lines = [\<lparr>line_text = ''2024-CV-001234'', confidence = 9/10,
                bbox_in_region = \<lparr>x1 = 0, y1 = 0, x2 = 120, y2 = 20\<rparr>\<rparr>]\<rparr>"

definition scan_result :: doc_results where
  "scan_result =
     \<lparr>dr_layout_results = \<lparr>lr_library = None, lr_num_regions = None, lr_regions = [],
                            lr_method = Some ''none (full-text OCR)''\<rparr>,
      dr_ocr_results = \<lparr>or_library = ''easyocr'', or_num_regions = 1,
                         or_regions = [scan_region_result],
                         or_full_text = Some ''2024-CV-001234'',
                         or_text_regions = Some [(''2024-CV-001234'', 9/10)]\<rparr>,
      dr_extracted_fields = [], dr_overall_accuracy = 0\<rparr>"

definition scan_world :: world where
  "scan_world = sample_world\<lparr>calls := [Download ''scan.png'', OcrExtract EasyOCREngine]\<rparr>"





definition failed_world :: world where
  "failed_world =
     run_test_background sample_backend ratio_eq ''run1'' [''nope'', ''b0'', ''b1'', ''b2'']
       ''doclayout_yolo'' ''easyocr'' sample_world"

section \<open>Verified properties\<close>

subsection \<open>Document accuracy\<close>

text \<open>
  Claim C4. Document accuracy is 0 for an empty field list, the mean match score of the
  fields flagged important when there is one, and the mean match score of all fields
  when the list is not empty and no field is flagged important.
\<close>

theorem calculate_accuracy_mean:
  "(fs = [] \<longrightarrow> calculate_accuracy fs = 0) \<and>
   ((\<exists>f \<in> set fs. is_important f) \<longrightarrow>
      calculate_accuracy fs = mean (map match_score (filter is_important fs))) \<and>
   (fs \<noteq> [] \<and> (\<forall>f \<in> set fs. \<not> is_important f) \<longrightarrow>
      calculate_accuracy fs = mean (map match_score fs))"
proof (intro conjI impI)
  assume "fs = []"
  then show "calculate_accuracy fs = 0" by (simp add: calculate_accuracy_def)
next
  assume "\<exists>f \<in> set fs. is_important f"
  then have "filter is_important fs \<noteq> []" and "fs \<noteq> []"
    by (auto simp: filter_empty_conv)
  then show "calculate_accuracy fs = mean (map match_score (filter is_important fs))"
    by (simp add: calculate_accuracy_def mean_def Let_def)
next
  assume a: "fs \<noteq> [] \<and> (\<forall>f \<in> set fs. \<not> is_important f)"
  then have "filter is_important fs = []"
    by (simp add: filter_empty_conv)
  with a show "calculate_accuracy fs = mean (map match_score fs)"
    by (simp add: calculate_accuracy_def mean_def Let_def)
qed

theorem calculate_accuracy_mean_witness:
  "calculate_accuracy [] = 0 \<and>
   calculate_accuracy [ef 1 True, ef 0 False, ef (1/2) True] = 3/4 \<and>
   calculate_accuracy [ef 1 False, ef 0 False] = 1/2"
  using calculate_accuracy_mean [of "[]"]
    calculate_accuracy_mean [of "[ef 1 True, ef 0 False, ef (1/2) True]"]
    calculate_accuracy_mean [of "[ef 1 False, ef 0 False]"]
  by (simp add: ef_def mean_def)

subsection \<open>Field matcher\<close>

lemma fold_match_line:
  "fold (match_line ratio e) ls b =
   fold upd (map (\<lambda>l. (line_text l, confidence l, ratio (lower e) (lower (line_text l)))) ls) b"
  by (induction ls arbitrary: b) (simp_all add: match_line_def upd_def cand_score_def Let_def)

lemma match_result_upd:
  "match_result ratio e r b = fold upd (result_candidates ratio e r) b"
  by (simp add: match_result_def result_candidates_def fold_match_line match_full_text_def
      upd_def cand_score_def Let_def)

lemma fold_match_result:
  "fold (match_result ratio e) rs b = fold upd (candidates ratio e rs) b"
  by (induction rs arbitrary: b) (simp_all add: candidates_def match_result_upd)

lemma find_cong_set: "(\<And>x. x \<in> set xs \<Longrightarrow> P x = Q x) \<Longrightarrow> find P xs = find Q xs"
  by (induction xs) auto

lemma first_above_Some:
  assumes "\<exists>d \<in> set cs. s < cand_score d"
  shows "\<exists>c. first_above s cs = Some c"
proof -
  from assms have ne: "cand_score ` set cs \<noteq> {}" by auto
  have fin: "finite (cand_score ` set cs)" by simp
  from Max_in [OF fin ne] obtain c where c: "c \<in> set cs"
    "cand_score c = Max (cand_score ` set cs)" by auto
  have top: "\<forall>d \<in> set cs. cand_score d \<le> cand_score c"
    using c(2) fin by simp
  with assms have "s < cand_score c" by force
  with c(1) top have "first_above s cs \<noteq> None"
    unfolding first_above_def find_None_iff by blast
  then show ?thesis by auto
qed

lemma fold_upd_first_above:
  "fold upd cs b = (case first_above (best_score b) cs of None \<Rightarrow> b | Some c \<Rightarrow> best_of c)"
proof (induction cs arbitrary: b)
  case Nil
  then show ?case by (simp add: first_above_def)
next
  case (Cons a cs)
  show ?case
  proof (cases "best_score b < cand_score a")
    case above: True
    then have step: "fold upd (a # cs) b = fold upd cs (best_of a)"
      by (simp add: upd_def best_of_def)
    have sc: "best_score (best_of a) = cand_score a"
      by (simp add: best_of_def)
    show ?thesis
    proof (cases "\<forall>d \<in> set cs. cand_score d \<le> cand_score a")
      case True
      then have "first_above (cand_score a) cs = None"
        by (auto simp: first_above_def find_None_iff)
      moreover from True above have "first_above (best_score b) (a # cs) = Some a"
        by (simp add: first_above_def)
      ultimately show ?thesis
        using Cons.IH [of "best_of a"] step sc by simp
    next
      case False
      then obtain d where d: "d \<in> set cs" "cand_score a < cand_score d"
        by (auto simp: not_le)
      have "first_above (best_score b) (a # cs) = first_above (cand_score a) cs"
        unfolding first_above_def using d above
        by (auto intro!: find_cong_set simp: not_le)
      moreover from d obtain c where "first_above (cand_score a) cs = Some c"
        using first_above_Some [of cs "cand_score a"] by blast
      ultimately show ?thesis
        using Cons.IH [of "best_of a"] step sc by simp
    qed
  next
    case False
    then have step: "fold upd (a # cs) b = fold upd cs b"
      by (simp add: upd_def)
    have "first_above (best_score b) (a # cs) = first_above (best_score b) cs"
      unfolding first_above_def using False
      by (auto intro!: find_cong_set)
    then show ?thesis
      using Cons.IH [of b] step by simp
  qed
qed

lemma first_above_highest:
  "\<exists>c \<in> set cs. s < cand_score c \<Longrightarrow> first_above s cs = first_highest cs"
  unfolding first_above_def first_highest_def
  by (rule find_cong_set) force

lemma first_above_None:
  "\<forall>c \<in> set cs. cand_score c \<le> s \<Longrightarrow> first_above s cs = None"
  by (auto simp: first_above_def find_None_iff)


lemma match_field_first_above:
  "match_field ratio rs item =
     (let b = (case first_above 0 (candidates ratio (snd item) rs) of
                 None \<Rightarrow> \<lparr>best_match = [], best_score = 0, best_confidence = 0\<rparr>
               | Some c \<Rightarrow> best_of c)
      in \<lparr>field_name = fst item, expected_value = snd item,
          extracted_value = best_match b, ef_confidence = best_confidence b,
          match_score = best_score b, is_important = True,
          verification_status = UNVERIFIED, corrected_value = None\<rparr>)"
  by (simp add: match_field_def fold_match_result fold_upd_first_above)

text \<open>
  Claim C3, as the code has it. Every expected field yields one extracted field, in
  the order of the expected values, flagged important and unverified. When some
  candidate (a line, or a result's full text) has a similarity strictly above 0, the
  field's extracted value, confidence and match score are those of the first candidate
  in enumeration order whose similarity is the highest of all. When no candidate has
  a positive similarity, the extracted value is empty and confidence and match score
  are 0.
\<close>

theorem match_fields_first_highest:
  assumes "i < length expected_values"
  shows "length (match_fields ratio expected_values rs) = length expected_values
    \<and> field_name (match_fields ratio expected_values rs ! i) = fst (expected_values ! i)
    \<and> expected_value (match_fields ratio expected_values rs ! i) = snd (expected_values ! i)
    \<and> is_important (match_fields ratio expected_values rs ! i)
    \<and> verification_status (match_fields ratio expected_values rs ! i) = UNVERIFIED
    \<and> (if \<exists>c \<in> set (candidates ratio (snd (expected_values ! i)) rs). 0 < cand_score c
       then first_highest (candidates ratio (snd (expected_values ! i)) rs)
            = Some (extracted_value (match_fields ratio expected_values rs ! i),
                    ef_confidence (match_fields ratio expected_values rs ! i),
                    match_score (match_fields ratio expected_values rs ! i))
       else extracted_value (match_fields ratio expected_values rs ! i) = []
            \<and> ef_confidence (match_fields ratio expected_values rs ! i) = 0
            \<and> match_score (match_fields ratio expected_values rs ! i) = 0)"
proof -
  let ?item = "expected_values ! i"
  let ?cs = "candidates ratio (snd ?item) rs"
  have nth: "match_fields ratio expected_values rs ! i = match_field ratio rs ?item"
    using assms by (simp add: match_fields_def)
  show ?thesis
  proof (cases "\<exists>c \<in> set ?cs. 0 < cand_score c")
    case True
    then obtain c where c: "first_above 0 ?cs = Some c"
      using first_above_Some [of ?cs 0] by blast
    with True have "first_highest ?cs = Some c"
      using first_above_highest [of ?cs 0] by simp
    with True c show ?thesis
      unfolding nth match_field_first_above
      by (simp add: match_fields_def best_of_def cand_score_def)
  next
    case False
    then have "first_above 0 ?cs = None"
      by (intro first_above_None) (auto simp: not_less)
    with False show ?thesis
      unfolding nth match_field_first_above
      by (simp add: match_fields_def)
  qed
qed

lemma lower_samples:
  "lower ''2024-CV-001234'' = ''2024-cv-001234''"
  "lower ''abc'' = ''abc''"
  "lower ''xyz'' = ''xyz''"
  by code_simp+

theorem match_fields_first_highest_witness:
  "(0::nat) < length [(''case_number'', ''2024-CV-001234'')]
   \<and> extracted_value (match_fields ratio_eq [(''case_number'', ''2024-CV-001234'')]
        scenario_results ! 0) = ''2024-CV-001234''
   \<and> ef_confidence (match_fields ratio_eq [(''case_number'', ''2024-CV-001234'')]
        scenario_results ! 0) = 9/10
   \<and> match_score (match_fields ratio_eq [(''case_number'', ''2024-CV-001234'')]
        scenario_results ! 0) = 1
   \<and> extracted_value (match_fields ratio_eq [(''party'', ''abc'')] unrelated_results ! 0) = []
   \<and> match_score (match_fields ratio_eq [(''party'', ''abc'')] unrelated_results ! 0) = 0"
proof -
  have pos: "\<exists>c \<in> set (candidates ratio_eq ''2024-CV-001234'' scenario_results). 0 < cand_score c"
    by (simp add: candidates_def result_candidates_def scenario_results_def cand_score_def
        ratio_eq_def)
  have first: "first_highest (candidates ratio_eq ''2024-CV-001234'' scenario_results)
               = Some (''2024-CV-001234'', 9/10, 1)"
    by (simp add: first_highest_def candidates_def result_candidates_def scenario_results_def
        cand_score_def ratio_eq_def)
  have len: "(0::nat) < length [(''case_number'', ''2024-CV-001234'')]" by simp
  from match_fields_first_highest [OF len, of ratio_eq scenario_results] pos first
  have found: "extracted_value (match_fields ratio_eq [(''case_number'', ''2024-CV-001234'')]
        scenario_results ! 0) = ''2024-CV-001234''
   \<and> ef_confidence (match_fields ratio_eq [(''case_number'', ''2024-CV-001234'')]
        scenario_results ! 0) = 9/10
   \<and> match_score (match_fields ratio_eq [(''case_number'', ''2024-CV-001234'')]
        scenario_results ! 0) = 1"
    by simp
  have none: "\<not> (\<exists>c \<in> set (candidates ratio_eq ''abc'' unrelated_results). 0 < cand_score c)"
    by (simp add: candidates_def result_candidates_def unrelated_results_def cand_score_def
        ratio_eq_def lower_samples)
  have len': "(0::nat) < length [(''party'', ''abc'')]" by simp
  from match_fields_first_highest [OF len', of ratio_eq unrelated_results] none
  have "extracted_value (match_fields ratio_eq [(''party'', ''abc'')] unrelated_results ! 0) = []
   \<and> match_score (match_fields ratio_eq [(''party'', ''abc'')] unrelated_results ! 0) = 0"
    by simp
  with found len show ?thesis by blast
qed

theorem match_field_zero_score_counterexample:
  "first_highest (candidates ratio_eq ''abc'' unrelated_results) = Some (''xyz'', 9/10, 0)
   \<and> extracted_value (match_field ratio_eq unrelated_results (''party'', ''abc'')) = []
   \<and> ef_confidence (match_field ratio_eq unrelated_results (''party'', ''abc'')) = 0
   \<and> first_highest (candidates ratio_eq ''abc'' unrelated_results)
      \<noteq> Some (extracted_value (match_field ratio_eq unrelated_results (''party'', ''abc'')),
               ef_confidence (match_field ratio_eq unrelated_results (''party'', ''abc'')),
               match_score (match_field ratio_eq unrelated_results (''party'', ''abc'')))"
  by (simp add: first_highest_def candidates_def result_candidates_def unrelated_results_def
      cand_score_def ratio_eq_def match_field_def match_result_def match_line_def
      match_full_text_def lower_samples)
subsection \<open>Layout detectors\<close>

lemma length_reassign_ids: "length (reassign_ids rs) = length rs"
  by (simp add: reassign_ids_def enumerate0_def)

lemma ids_reassign_ids: "map r_id (reassign_ids rs) = map int [1..<Suc (length rs)]"
proof -
  have "map r_id (reassign_ids rs) = map (\<lambda>i. int i + 1) [0..<length rs]"
    by (rule nth_equalityI) (simp_all add: reassign_ids_def enumerate0_def)
  also have "\<dots> = map int (map Suc [0..<length rs])"
    by simp
  also have "map Suc [0..<length rs] = [1..<Suc (length rs)]"
    by (simp add: map_Suc_upt)
  finally show ?thesis .
qed

lemma reassign_ids_Nil: "reassign_ids [] = []"
  by (simp add: reassign_ids_def enumerate0_def)

lemma length_sort_reverse: "length (sort_reverse f xs) = length xs"
  by (simp add: sort_reverse_def)

lemma detect_length:
  "detect env d img = Inr regions \<Longrightarrow> length regions = detections env d img"
  by (cases d)
    (auto simp: yolo_detect_def doctr_detect_def surya_detect_def length_reassign_ids
      reassign_ids_Nil length_sort_reverse yolo_regions_def enumerate0_def length_concat comp_def Let_def
      split: option.splits sum.splits list.splits doctr_page.splits)

lemma detect_reassigned:
  "detect env d img = Inr regions \<Longrightarrow> \<exists>rs. regions = reassign_ids rs"
  by (cases d)
    (auto simp: yolo_detect_def doctr_detect_def surya_detect_def Let_def
      split: option.splits sum.splits)

text \<open>
  Claim C8. Whenever a layout detector adapter returns a region list, the ids of the
  list are 1, 2, ..., N in list order, without duplicates, where N is the number of
  detections the model returned (N may be 0).
\<close>

theorem detect_ids_contiguous:
  assumes "detect env d img = Inr regions"
  shows "map r_id regions = map int [1..<Suc (length regions)]
       \<and> distinct (map r_id regions)
       \<and> length regions = detections env d img"
proof -
  from assms obtain rs where rs: "regions = reassign_ids rs"
    using detect_reassigned by blast
  have ids: "map r_id regions = map int [1..<Suc (length regions)]"
    unfolding rs by (simp add: ids_reassign_ids length_reassign_ids)
  have "distinct (map int [1..<Suc (length regions)])"
    by (simp add: distinct_map inj_on_def)
  with ids detect_length [OF assms] show ?thesis by simp
qed

lemma sample_yolo:
  "detect sample_backend DocLayoutYOLODetector (sample_image 200 100) = Inr yolo_regions_sample"
  by code_simp

lemma sample_doctr:
  "detect sample_backend DocTRLayoutDetector (sample_image 200 100)
   = Inr [\<lparr>r_id = 1, r_type = ''text'', r_confidence = 1,
           r_bbox = \<lparr>x1 = 0, y1 = 0, x2 = 200, y2 = 100\<rparr>\<rparr>]"
  "detect sample_backend SuryaLayoutDetector (sample_image 200 100) = Inr []"
  by code_simp+

theorem detect_ids_contiguous_witness:
  "detect sample_backend DocLayoutYOLODetector (sample_image 200 100) = Inr yolo_regions_sample
   \<and> map r_id yolo_regions_sample = [1, 2]
   \<and> detections sample_backend DocLayoutYOLODetector (sample_image 200 100) = 2"
proof -
  have len: "length yolo_regions_sample = 2"
    by (simp add: yolo_regions_sample_def)
  from detect_ids_contiguous [OF sample_yolo] sample_yolo show ?thesis
    unfolding len by (simp add: upt_rec)
qed

subsection \<open>OCR engines\<close>

lemma map_result_texts:
  "map_result easyocr_line dets = Inr ls \<Longrightarrow> map line_text ls = map (\<lambda>d. fst (snd d)) dets"
proof (induction dets arbitrary: ls)
  case Nil
  then show ?case by simp
next
  case (Cons d dets)
  then show ?case
    by (auto simp: easyocr_line_def Let_def split: sum.splits prod.splits if_splits)
qed

lemma easyocr_joined:
  "easyocr_process_cropped_image env img rid = Inr res \<Longrightarrow>
   full_text res = join '' '' (map line_text (lines res))"
  by (auto simp: easyocr_process_cropped_image_def map_result_texts
      split: option.splits sum.splits)

lemma surya_joined:
  "surya_process_cropped_image env img rid = Inr res \<Longrightarrow>
   full_text res = join '' '' (map line_text (lines res))"
  by (auto simp: surya_process_cropped_image_def surya_line_def comp_def Let_def
      split: option.splits sum.splits list.splits)

lemma paddle_result_texts:
  "map line_text (paddle_result_lines res) = paddle_result_parts res"
proof -
  have "line_text \<circ> paddle_line ss bs = snd" for ss bs
    by (rule ext) (simp add: paddle_line_def Let_def split: prod.splits)
  moreover have "map snd (filter (\<lambda>it. snd it \<noteq> []) (zip [0..<length ts] ts))
                 = filter (\<lambda>t. t \<noteq> []) ts" for ts :: "string list"
  proof -
    have "filter (\<lambda>t. t \<noteq> []) ts
          = filter (\<lambda>t. t \<noteq> []) (map snd (zip [0..<length ts] ts))"
      by simp
    also have "\<dots> = map snd (filter ((\<lambda>t. t \<noteq> []) \<circ> snd) (zip [0..<length ts] ts))"
      by (rule filter_map)
    finally show ?thesis by (simp add: comp_def)
  qed
  ultimately show ?thesis
    by (simp add: paddle_result_lines_def paddle_result_parts_def Let_def)
qed

lemma paddle_joined:
  "paddle_process_cropped_image env img rid = Inr res \<Longrightarrow>
   full_text res = join '' '' (map line_text (lines res))"
  by (auto simp: paddle_process_cropped_image_def map_concat comp_def paddle_result_texts
      split: option.splits sum.splits)

lemma tesseract_joined:
  "tesseract_process_cropped_image env img rid = Inr res \<Longrightarrow>
   full_text res = join '' '' (map line_text (lines res))"
  by (auto simp: tesseract_process_cropped_image_def tesseract_line_def comp_def Let_def
      split: option.splits sum.splits)

lemma trocr_joined:
  "trocr_process_cropped_image env img rid = Inr res \<Longrightarrow>
   full_text res = join '' '' (map line_text (lines res))"
  by (auto simp: trocr_process_cropped_image_def Let_def split: option.splits sum.splits)

lemma mineru_block_texts_lines:
  "map line_text (mineru_block_lines w h block) = mineru_block_texts block"
  by (simp add: mineru_block_lines_def comp_def)

lemma mineru_joined:
  "mineru_process_cropped_image env img rid = Inr res \<Longrightarrow>
   full_text res = join '' '' (map line_text (lines res))"
  by (auto simp: mineru_process_cropped_image_def Let_def map_concat comp_def
      mineru_block_texts_lines split: option.splits sum.splits)

lemma strip_Nil: "strip [] = []"
  by (simp add: strip_def)

lemma got_lines_texts:
  "got_process_cropped_image env img rid = Inr res \<Longrightarrow>
   map line_text (lines res)
   = filter (\<lambda>t. t \<noteq> []) (map strip (split_newline (full_text res)))"
  by (auto simp: got_process_cropped_image_def got_lines_def Let_def comp_def strip_Nil
      split: option.splits sum.splits)

lemma extract_text_results:
  "extract_text env eng img regions = Inr ress \<Longrightarrow>
   length ress = length regions \<and>
   (\<forall>i < length regions. extract_from_region env eng img (regions ! i) = Inr (ress ! i))"
proof (induction regions arbitrary: ress)
  case Nil
  then show ?case by simp
next
  case (Cons region regions)
  then show ?case
    by (auto simp: nth_Cons split: sum.splits nat.splits)
qed

lemma crop_valid:
  "valid_box box \<Longrightarrow> crop env img box = Inr (cropped_image env img box)"
  by (auto simp: crop_def valid_box_def split: prod.splits)

lemma crop_invalid:
  "\<not> valid_box box \<Longrightarrow> \<exists>e. crop env img box = Inl e"
  by (auto simp: crop_def valid_box_def split: prod.splits)

lemma extract_from_region_Inr:
  assumes "extract_from_region env eng img region = Inr res"
  shows "valid_box (region_box region)
       \<and> process_cropped_image env eng (cropped_image env img (region_box region))
           (r_id region) = Inr res"
proof (cases "valid_box (region_box region)")
  case True
  with assms show ?thesis
    by (simp add: extract_from_region_def crop_valid)
next
  case False
  then obtain e where "crop env img (region_box region) = Inl e"
    using crop_invalid by blast
  with assms show ?thesis
    by (simp add: extract_from_region_def)
qed

lemma process_joined:
  "eng \<noteq> GotOCREngine \<Longrightarrow> process_cropped_image env eng img rid = Inr res \<Longrightarrow>
   full_text res = join '' '' (map line_text (lines res))"
  by (cases eng)
    (simp_all add: easyocr_joined surya_joined paddle_joined tesseract_joined trocr_joined
      mineru_joined)

lemma got_full_text_decoded:
  "got_process_cropped_image env img rid = Inr res \<Longrightarrow>
   \<exists>decoded. got_generate env (ensure_rgb env img) = Inr decoded \<and> full_text res = strip decoded"
  by (auto simp: got_process_cropped_image_def Let_def split: option.splits sum.splits)

text \<open>
  Claim C7, as the code has it. For every adapter other than GOT-OCR and every
  region, the result's full text is its lines' texts joined by single spaces, in the
  order of the lines. For GOT-OCR the full text of a region's result is the stripped
  decoded text that the model returns for the region's crop, newlines kept, and the
  lines' texts are the non-empty stripped pieces of the full text between newlines.
\<close>

theorem extract_text_full_text_joined:
  assumes "extract_text env eng img regions = Inr ress" and "i < length ress"
  shows "(eng \<noteq> GotOCREngine \<longrightarrow>
            full_text (ress ! i) = join '' '' (map line_text (lines (ress ! i))))
       \<and> (eng = GotOCREngine \<longrightarrow>
            (\<exists>decoded.
                got_generate env
                  (ensure_rgb env (cropped_image env img (region_box (regions ! i))))
                = Inr decoded
              \<and> full_text (ress ! i) = strip decoded)
          \<and> map line_text (lines (ress ! i))
            = filter (\<lambda>t. t \<noteq> []) (map strip (split_newline (full_text (ress ! i)))))"
proof -
  from extract_text_results [OF assms(1)] assms(2)
  have "extract_from_region env eng img (regions ! i) = Inr (ress ! i)"
    by simp
  then have p: "process_cropped_image env eng (cropped_image env img (region_box (regions ! i)))
                  (r_id (regions ! i)) = Inr (ress ! i)"
    by (simp add: extract_from_region_Inr)
  show ?thesis
  proof (intro conjI impI)
    assume "eng \<noteq> GotOCREngine"
    then show "full_text (ress ! i) = join '' '' (map line_text (lines (ress ! i)))"
      using p by (rule process_joined)
  next
    assume g: "eng = GotOCREngine"
    with p show "\<exists>decoded.
                got_generate env
                  (ensure_rgb env (cropped_image env img (region_box (regions ! i))))
                = Inr decoded
              \<and> full_text (ress ! i) = strip decoded"
      by (simp add: got_full_text_decoded)
    from g p show "map line_text (lines (ress ! i))
      = filter (\<lambda>t. t \<noteq> []) (map strip (split_newline (full_text (ress ! i))))"
      by (simp add: got_lines_texts)
  qed
qed

lemma sample_got:
  "extract_text sample_backend GotOCREngine (sample_image 200 100) [sample_region 1 0 50]
   = Inr [two_lines_result]"
  by code_simp

lemma sample_mineru:
  "extract_text sample_backend MinerUEngine (sample_image 200 100) three_regions
   = Inr [harris_result 1 50, empty_result 2, harris_result 3 40]"
  by code_simp

lemma sample_got_decoded:
  "got_generate sample_backend
     (ensure_rgb sample_backend
        (cropped_image sample_backend (sample_image 200 100)
           (region_box ([sample_region 1 0 50] ! 0))))
   = Inr two_lines"
  "strip two_lines = full_text two_lines_result"
  by code_simp+

theorem extract_text_full_text_joined_witness:
  "extract_text sample_backend MinerUEngine (sample_image 200 100) three_regions
   = Inr [harris_result 1 50, empty_result 2, harris_result 3 40]
   \<and> full_text ([harris_result 1 50, empty_result 2, harris_result 3 40] ! 0)
     = join '' '' (map line_text
                    (lines ([harris_result 1 50, empty_result 2, harris_result 3 40] ! 0)))
   \<and> extract_text sample_backend GotOCREngine (sample_image 200 100) [sample_region 1 0 50]
     = Inr [two_lines_result]
   \<and> full_text ([two_lines_result] ! 0) = strip two_lines
   \<and> map line_text (lines ([two_lines_result] ! 0))
     = filter (\<lambda>t. t \<noteq> []) (map strip (split_newline (full_text ([two_lines_result] ! 0))))"
proof -
  have len: "(0::nat) < length [harris_result 1 50, empty_result 2, harris_result 3 40]"
    by simp
  from extract_text_full_text_joined [OF sample_mineru len]
  have joined: "full_text ([harris_result 1 50, empty_result 2, harris_result 3 40] ! 0)
     = join '' '' (map line_text
                    (lines ([harris_result 1 50, empty_result 2, harris_result 3 40] ! 0)))"
    by blast
  have len': "(0::nat) < length [two_lines_result]"
    by simp
  from extract_text_full_text_joined [OF sample_got len']
  have got: "\<exists>decoded.
                got_generate sample_backend
                  (ensure_rgb sample_backend
                     (cropped_image sample_backend (sample_image 200 100)
                        (region_box ([sample_region 1 0 50] ! 0))))
                = Inr decoded
              \<and> full_text ([two_lines_result] ! 0) = strip decoded"
    and pieces: "map line_text (lines ([two_lines_result] ! 0))
     = filter (\<lambda>t. t \<noteq> []) (map strip (split_newline (full_text ([two_lines_result] ! 0))))"
    by blast+
  from got have "full_text ([two_lines_result] ! 0) = strip two_lines"
    unfolding sample_got_decoded(1) by blast
  with joined pieces sample_mineru sample_got show ?thesis by blast
qed

theorem got_ocr_full_text_counterexample:
  "extract_text sample_backend GotOCREngine (sample_image 200 100) [sample_region 1 0 50]
   = Inr [two_lines_result]
   \<and> full_text two_lines_result \<noteq> join '' '' (map line_text (lines two_lines_result))"
proof -
  have "full_text two_lines_result \<noteq> join '' '' (map line_text (lines two_lines_result))"
    by (simp add: two_lines_result_def two_lines_def newline_def)
  with sample_got show ?thesis by simp
qed

lemma mineru_never_raises:
  assumes "load_engine env MinerUEngine = None"
  shows "\<exists>res. mineru_process_cropped_image env img rid = Inr res
           \<and> (model_error env MinerUEngine img \<noteq> None \<longrightarrow>
                res = \<lparr>region_id = rid, full_text = [], lines = []\<rparr>)"
  using assms
  by (auto simp: mineru_process_cropped_image_def Let_def split: sum.splits)

lemma mineru_extract_text_total:
  assumes "load_engine env MinerUEngine = None"
    and "\<forall>r \<in> set regions. valid_box (region_box r)"
  shows "\<exists>ress. extract_text env MinerUEngine img regions = Inr ress"
  using assms(2)
proof (induction regions)
  case Nil
  then show ?case by simp
next
  case (Cons region regions)
  from Cons.prems have v: "valid_box (region_box region)"
    by simp
  from mineru_never_raises [OF assms(1), of "cropped_image env img (region_box region)"
      "r_id region"]
  obtain res where "mineru_process_cropped_image env
      (cropped_image env img (region_box region)) (r_id region) = Inr res"
    by blast
  then have "extract_from_region env MinerUEngine img region = Inr res"
    by (simp add: extract_from_region_def crop_valid [OF v])
  moreover from Cons.prems Cons.IH
  obtain ress where "extract_text env MinerUEngine img regions = Inr ress"
    by auto
  ultimately show ?case by simp
qed

lemma model_error_propagates:
  assumes "eng \<noteq> MinerUEngine" and "load_engine env eng = None"
    and "model_error env eng img = Some e"
  shows "process_cropped_image env eng img rid = Inl e"
  using assms
  by (cases eng)
    (auto simp: easyocr_process_cropped_image_def surya_process_cropped_image_def
      paddle_process_cropped_image_def tesseract_process_cropped_image_def
      trocr_process_cropped_image_def got_process_cropped_image_def Let_def
      split: sum.splits)

lemma extract_text_all_regions:
  "extract_text env eng img regions = Inr ress \<Longrightarrow> region \<in> set regions \<Longrightarrow>
   \<exists>res. extract_from_region env eng img region = Inr res"
  by (induction regions arbitrary: ress) (auto split: sum.splits)

lemma mineru_region_id:
  "mineru_process_cropped_image env img rid = Inr res \<Longrightarrow> region_id res = rid"
  by (auto simp: mineru_process_cropped_image_def Let_def split: option.splits sum.splits)

text \<open>
  Claim C1, as the code has it. For the MinerU adapter, once its model is loaded and
  on regions whose bbox is not inverted, \<open>extract_text\<close> returns one result per region
  for every region list: the result for each region is what \<open>extract_from_region\<close>
  gives for it, it carries the region's id, and for a region on which
  \<open>two_step_extract\<close> raises it has an empty full text and no lines. For each of the
  six other adapters, an exception that the model raises on one region leaves
  \<open>extract_text\<close> as an exception: no result is returned for any region. For every
  adapter, MinerU too, a region whose bbox is inverted makes the crop raise, and
  \<open>extract_text\<close> with it.
\<close>

theorem extract_text_model_failure:
  "(load_engine env MinerUEngine = None \<and> (\<forall>r \<in> set regions. valid_box (region_box r)) \<longrightarrow>
      (\<exists>ress. extract_text env MinerUEngine img regions = Inr ress
         \<and> length ress = length regions
         \<and> (\<forall>i < length regions.
               extract_from_region env MinerUEngine img (regions ! i) = Inr (ress ! i)
             \<and> region_id (ress ! i) = r_id (regions ! i)
             \<and> (model_error env MinerUEngine
                   (cropped_image env img (region_box (regions ! i))) \<noteq> None
                 \<longrightarrow> ress ! i = \<lparr>region_id = r_id (regions ! i), full_text = [],
                                   lines = []\<rparr>))))
   \<and> (eng \<noteq> MinerUEngine \<and> load_engine env eng = None \<and> region \<in> set regions
        \<and> model_error env eng (cropped_image env img (region_box region)) \<noteq> None
      \<longrightarrow> (\<exists>e. extract_text env eng img regions = Inl e))
   \<and> (region \<in> set regions \<and> \<not> valid_box (region_box region)
      \<longrightarrow> (\<exists>e. extract_text env eng img regions = Inl e))"
proof (intro conjI impI)
  assume a: "load_engine env MinerUEngine = None
             \<and> (\<forall>r \<in> set regions. valid_box (region_box r))"
  then have loaded: "load_engine env MinerUEngine = None"
    and valid: "\<forall>r \<in> set regions. valid_box (region_box r)"
    by blast+
  from mineru_extract_text_total [OF loaded valid]
  obtain ress where ress: "extract_text env MinerUEngine img regions = Inr ress"
    by blast
  note each = extract_text_results [OF ress]
  have "extract_from_region env MinerUEngine img (regions ! i) = Inr (ress ! i)
        \<and> region_id (ress ! i) = r_id (regions ! i)
        \<and> (model_error env MinerUEngine
              (cropped_image env img (region_box (regions ! i))) \<noteq> None
            \<longrightarrow> ress ! i = \<lparr>region_id = r_id (regions ! i), full_text = [], lines = []\<rparr>)"
    if i: "i < length regions" for i
  proof -
    from each i
    have ex: "extract_from_region env MinerUEngine img (regions ! i) = Inr (ress ! i)"
      by simp
    from extract_from_region_Inr [OF ex]
    have m: "mineru_process_cropped_image env
               (cropped_image env img (region_box (regions ! i))) (r_id (regions ! i))
             = Inr (ress ! i)"
      by simp
    from mineru_never_raises [OF loaded, of "cropped_image env img (region_box (regions ! i))"
        "r_id (regions ! i)"] m
    have "model_error env MinerUEngine
              (cropped_image env img (region_box (regions ! i))) \<noteq> None
            \<longrightarrow> ress ! i = \<lparr>region_id = r_id (regions ! i), full_text = [], lines = []\<rparr>"
      by auto
    with ex mineru_region_id [OF m] show ?thesis by blast
  qed
  with ress each
  show "\<exists>ress. extract_text env MinerUEngine img regions = Inr ress
         \<and> length ress = length regions
         \<and> (\<forall>i < length regions.
               extract_from_region env MinerUEngine img (regions ! i) = Inr (ress ! i)
             \<and> region_id (ress ! i) = r_id (regions ! i)
             \<and> (model_error env MinerUEngine
                   (cropped_image env img (region_box (regions ! i))) \<noteq> None
                 \<longrightarrow> ress ! i = \<lparr>region_id = r_id (regions ! i), full_text = [],
                                   lines = []\<rparr>))"
    by blast
next
  assume a: "eng \<noteq> MinerUEngine \<and> load_engine env eng = None \<and> region \<in> set regions
        \<and> model_error env eng (cropped_image env img (region_box region)) \<noteq> None"
  then obtain e where e: "model_error env eng (cropped_image env img (region_box region)) = Some e"
    by auto
  have "\<exists>e'. extract_from_region env eng img region = Inl e'"
  proof (cases "valid_box (region_box region)")
    case True
    with a e show ?thesis
      by (simp add: extract_from_region_def crop_valid model_error_propagates)
  next
    case False
    then obtain e' where "crop env img (region_box region) = Inl e'"
      using crop_invalid by blast
    then show ?thesis by (simp add: extract_from_region_def)
  qed
  with a extract_text_all_regions [of env eng img regions _ region]
  show "\<exists>e. extract_text env eng img regions = Inl e"
    by (cases "extract_text env eng img regions") auto
next
  assume a: "region \<in> set regions \<and> \<not> valid_box (region_box region)"
  then obtain e' where "crop env img (region_box region) = Inl e'"
    using crop_invalid by blast
  then have "\<exists>e'. extract_from_region env eng img region = Inl e'"
    by (simp add: extract_from_region_def)
  with a extract_text_all_regions [of env eng img regions _ region]
  show "\<exists>e. extract_text env eng img regions = Inl e"
    by (cases "extract_text env eng img regions") auto
qed

lemma sample_easyocr:
  "extract_text sample_backend EasyOCREngine (sample_image 200 100) three_regions
   = Inl (Error ''easyocr failed'')"
  by code_simp

lemma sample_inverted:
  "extract_text sample_backend MinerUEngine (sample_image 200 100) [sample_region 4 50 10]
   = Inl (Error (''Coordinate '' @ [CHR 0x27] @ ''right'' @ [CHR 0x27]
                 @ '' is less than '' @ [CHR 0x27] @ ''left'' @ [CHR 0x27]))"
  by code_simp

lemma sample_model_errors:
  "load_engine sample_backend MinerUEngine = None"
  "load_engine sample_backend EasyOCREngine = None"
  "model_error sample_backend MinerUEngine
     (cropped_image sample_backend (sample_image 200 100) (region_box (three_regions ! 1)))
   = Some (Error ''mineru failed'')"
  "model_error sample_backend EasyOCREngine
     (cropped_image sample_backend (sample_image 200 100) (region_box (sample_region 2 50 50)))
   = Some (Error ''easyocr failed'')"
  "length three_regions = 3"
  "r_id (three_regions ! 1) = 2"
  "sample_region 2 50 50 \<in> set three_regions"
  "(\<forall>r \<in> set three_regions. valid_box (region_box r)) = True"
  "valid_box (region_box (sample_region 4 50 10)) = False"
  by code_simp+

theorem extract_text_model_failure_witness:
  "extract_text sample_backend MinerUEngine (sample_image 200 100) three_regions
   = Inr [harris_result 1 50, empty_result 2, harris_result 3 40]
   \<and> [harris_result 1 50, empty_result 2, harris_result 3 40] ! 1
     = \<lparr>region_id = 2, full_text = [], lines = []\<rparr>
   \<and> extract_text sample_backend EasyOCREngine (sample_image 200 100) three_regions
     = Inl (Error ''easyocr failed'')
   \<and> extract_text sample_backend MinerUEngine (sample_image 200 100) [sample_region 4 50 10]
     = Inl (Error (''Coordinate '' @ [CHR 0x27] @ ''right'' @ [CHR 0x27]
                   @ '' is less than '' @ [CHR 0x27] @ ''left'' @ [CHR 0x27]))"
proof -
  have valid: "\<forall>r \<in> set three_regions. valid_box (region_box r)"
    using sample_model_errors(8) by simp
  have other_err: "model_error sample_backend EasyOCREngine
     (cropped_image sample_backend (sample_image 200 100) (region_box (sample_region 2 50 50)))
     \<noteq> None"
    unfolding sample_model_errors(4) by simp
  from extract_text_model_failure [of sample_backend three_regions "sample_image 200 100"
      EasyOCREngine "sample_region 2 50 50"]
    sample_model_errors(1) sample_model_errors(2) sample_model_errors(7) valid other_err
  have mineru: "\<exists>ress. extract_text sample_backend MinerUEngine (sample_image 200 100)
                   three_regions = Inr ress
         \<and> length ress = length three_regions
         \<and> (\<forall>i < length three_regions.
               extract_from_region sample_backend MinerUEngine (sample_image 200 100)
                 (three_regions ! i) = Inr (ress ! i)
             \<and> region_id (ress ! i) = r_id (three_regions ! i)
             \<and> (model_error sample_backend MinerUEngine
                   (cropped_image sample_backend (sample_image 200 100)
                      (region_box (three_regions ! i))) \<noteq> None
                 \<longrightarrow> ress ! i = \<lparr>region_id = r_id (three_regions ! i), full_text = [],
                                   lines = []\<rparr>))"
    and other: "\<exists>e. extract_text sample_backend EasyOCREngine (sample_image 200 100)
                   three_regions = Inl e"
    by blast+
  have inv: "sample_region 4 50 10 \<in> set [sample_region 4 50 10]
             \<and> \<not> valid_box (region_box (sample_region 4 50 10))"
    using sample_model_errors(9) by simp
  from extract_text_model_failure [of sample_backend "[sample_region 4 50 10]"
      "sample_image 200 100" MinerUEngine "sample_region 4 50 10"] inv
  have "\<exists>e. extract_text sample_backend MinerUEngine (sample_image 200 100)
               [sample_region 4 50 10] = Inl e"
    by blast
  from mineru obtain ress where
    r: "extract_text sample_backend MinerUEngine (sample_image 200 100) three_regions = Inr ress"
    and each: "\<forall>i < length three_regions.
               model_error sample_backend MinerUEngine
                 (cropped_image sample_backend (sample_image 200 100)
                    (region_box (three_regions ! i))) \<noteq> None
               \<longrightarrow> ress ! i = \<lparr>region_id = r_id (three_regions ! i), full_text = [],
                                 lines = []\<rparr>"
    by blast
  from r sample_mineru
  have ress: "ress = [harris_result 1 50, empty_result 2, harris_result 3 40]"
    by simp
  have "(1::nat) < length three_regions"
    unfolding sample_model_errors(5) by simp
  moreover have "model_error sample_backend MinerUEngine
      (cropped_image sample_backend (sample_image 200 100) (region_box (three_regions ! 1)))
      \<noteq> None"
    unfolding sample_model_errors(3) by simp
  ultimately have "ress ! 1 = \<lparr>region_id = r_id (three_regions ! 1), full_text = [],
                                lines = []\<rparr>"
    using each by blast
  then have "[harris_result 1 50, empty_result 2, harris_result 3 40] ! 1
        = \<lparr>region_id = 2, full_text = [], lines = []\<rparr>"
    unfolding ress sample_model_errors(6) .
  with sample_mineru sample_easyocr sample_inverted show ?thesis
    by blast
qed

theorem easyocr_failure_counterexample:
  "model_error sample_backend EasyOCREngine
     (cropped_image sample_backend (sample_image 200 100) (region_box (sample_region 2 50 50)))
   = Some (Error ''easyocr failed'')
   \<and> extract_text sample_backend EasyOCREngine (sample_image 200 100)
       [sample_region 1 0 50, sample_region 2 50 50, sample_region 3 50 90]
     = Inl (Error ''easyocr failed'')
   \<and> extract_text sample_backend TesseractEngine (sample_image 200 100)
       [sample_region 1 0 50, sample_region 2 50 50, sample_region 3 50 90]
     = Inl (Error ''tesseract failed'')"
  by code_simp

subsection \<open>Pipeline orchestrator\<close>

lemma process_region_id:
  "process_cropped_image env eng img rid = Inr res \<Longrightarrow> region_id res = rid"
  by (cases eng)
    (auto simp: easyocr_process_cropped_image_def surya_process_cropped_image_def
      paddle_process_cropped_image_def tesseract_process_cropped_image_def
      trocr_process_cropped_image_def got_process_cropped_image_def
      mineru_process_cropped_image_def Let_def
      split: option.splits sum.splits list.splits)

lemma extract_text_region_ids:
  "extract_text env eng img regions = Inr ress \<Longrightarrow> map region_id ress = map r_id regions"
proof (induction regions arbitrary: ress)
  case Nil
  then show ?case by simp
next
  case (Cons region regions)
  then show ?case
    by (auto simp: extract_from_region_def process_region_id split: sum.splits)
qed

lemma full_text_success:
  assumes "process_document_full_text env document ocr_library w = (Inr res, w')"
  shows "\<exists>img eng ress.
           load_document_image env document = Inr img
         \<and> get_ocr_engine ocr_library = Inr eng
         \<and> extract_text env eng img [full_region img] = Inr ress
         \<and> dr_ocr_results res
           = (ocr_to_dict eng ress)
               \<lparr>or_full_text := Some (join '' '' (map full_text ress)),
                or_text_regions :=
                  Some (concat (map (\<lambda>r. map (\<lambda>l. (line_text l, confidence l)) (lines r)) ress))\<rparr>
         \<and> dr_layout_results res
           = \<lparr>lr_library = None, lr_num_regions = None, lr_regions = [],
              lr_method = Some ''none (full-text OCR)''\<rparr>
         \<and> dr_extracted_fields res = []
         \<and> dr_overall_accuracy res = 0
         \<and> w' = log_call (OcrExtract eng) (log_call (Download (storage_path document)) w)"
proof -
  obtain img where img: "load_document_image env document = Inr img"
    using assms by (cases "load_document_image env document")
      (simp_all add: process_document_full_text_def Let_def)
  obtain eng where eng: "get_ocr_engine ocr_library = Inr eng"
    using assms img by (cases "get_ocr_engine ocr_library")
      (simp_all add: process_document_full_text_def Let_def)
  obtain ress where ress: "extract_text env eng img [full_region img] = Inr ress"
    using assms img eng by (cases "extract_text env eng img [full_region img]")
      (simp_all add: process_document_full_text_def Let_def del: extract_text.simps)
  from assms img eng ress show ?thesis
    by (auto simp add: process_document_full_text_def Let_def simp del: extract_text.simps)
qed

lemma full_text_calls:
  "\<exists>cs. calls (snd (process_document_full_text env document ocr_library w)) = calls w @ cs
        \<and> (\<forall>d. LayoutDetect d \<notin> set cs)"
  by (simp add: process_document_full_text_def Let_def log_call_def
      split: sum.splits del: extract_text.simps)

text \<open>
  Claim C6. Processing a document in full-text mode never calls a layout detector.
  When it returns a result, the extracted fields are empty, the overall accuracy is 0,
  the layout results hold no region, and the OCR results are those of the engine's
  extraction over the one full-page region, their full text being the full text the
  engine produced for that region.
\<close>

theorem full_text_mode_result:
  "(\<exists>cs. calls (snd (process_document_full_text env document ocr_library w)) = calls w @ cs
         \<and> (\<forall>d. LayoutDetect d \<notin> set cs))
   \<and> (process_document_full_text env document ocr_library w = (Inr res, w') \<longrightarrow>
        dr_extracted_fields res = []
      \<and> dr_overall_accuracy res = 0
      \<and> lr_regions (dr_layout_results res) = []
      \<and> (\<exists>img eng r.
            load_document_image env document = Inr img
          \<and> get_ocr_engine ocr_library = Inr eng
          \<and> extract_text env eng img [full_region img] = Inr [r]
          \<and> or_regions (dr_ocr_results res) = [r]
          \<and> or_full_text (dr_ocr_results res) = Some (full_text r)
          \<and> calls w' = calls w @ [Download (storage_path document), OcrExtract eng]))"
proof (intro conjI impI)
  show "\<exists>cs. calls (snd (process_document_full_text env document ocr_library w)) = calls w @ cs
         \<and> (\<forall>d. LayoutDetect d \<notin> set cs)"
    by (rule full_text_calls)
next
  assume ok: "process_document_full_text env document ocr_library w = (Inr res, w')"
  from full_text_success [OF ok] obtain img eng ress where
    img: "load_document_image env document = Inr img"
    and eng: "get_ocr_engine ocr_library = Inr eng"
    and ress: "extract_text env eng img [full_region img] = Inr ress"
    and ocr: "dr_ocr_results res
           = (ocr_to_dict eng ress)
               \<lparr>or_full_text := Some (join '' '' (map full_text ress)),
                or_text_regions :=
                  Some (concat (map (\<lambda>r. map (\<lambda>l. (line_text l, confidence l)) (lines r)) ress))\<rparr>"
    and lay: "dr_layout_results res
           = \<lparr>lr_library = None, lr_num_regions = None, lr_regions = [],
              lr_method = Some ''none (full-text OCR)''\<rparr>"
    and ef: "dr_extracted_fields res = []"
    and acc: "dr_overall_accuracy res = 0"
    and w': "w' = log_call (OcrExtract eng) (log_call (Download (storage_path document)) w)"
    by blast
  from extract_text_results [OF ress] have "length ress = 1" by simp
  then obtain r where r: "ress = [r]"
    by (cases ress) auto
  show "dr_extracted_fields res = []" by (rule ef)
  show "dr_overall_accuracy res = 0" by (rule acc)
  show "lr_regions (dr_layout_results res) = []" by (simp add: lay)
  have "or_regions (dr_ocr_results res) = [r]"
    and "or_full_text (dr_ocr_results res) = Some (full_text r)"
    and "calls w' = calls w @ [Download (storage_path document), OcrExtract eng]"
    by (simp_all add: ocr r ocr_to_dict_def w' log_call_def)
  with img eng ress r
  show "\<exists>img eng r.
            load_document_image env document = Inr img
          \<and> get_ocr_engine ocr_library = Inr eng
          \<and> extract_text env eng img [full_region img] = Inr [r]
          \<and> or_regions (dr_ocr_results res) = [r]
          \<and> or_full_text (dr_ocr_results res) = Some (full_text r)
          \<and> calls w' = calls w @ [Download (storage_path document), OcrExtract eng]"
    by blast
qed

text \<open>
  Claim C10. The pseudo-region of full-text mode has id 0, type \<open>full_page\<close>,
  confidence 1 and the bbox from (0, 0) to the image's width and height; the OCR
  results of a document processed in full-text mode are one result, with region id 0.
\<close>

theorem full_text_region_id_zero:
  "r_id (full_region img) = 0
   \<and> r_type (full_region img) = ''full_page''
   \<and> r_confidence (full_region img) = 1
   \<and> r_bbox (full_region img) = \<lparr>x1 = 0, y1 = 0, x2 = width img, y2 = height img\<rparr>
   \<and> (process_document_full_text env document ocr_library w = (Inr res, w') \<longrightarrow>
        map region_id (or_regions (dr_ocr_results res)) = [0])"
proof (intro conjI impI)
  assume ok: "process_document_full_text env document ocr_library w = (Inr res, w')"
  from full_text_success [OF ok] obtain im eng ress where
    ress: "extract_text env eng im [full_region im] = Inr ress"
    and ocr: "dr_ocr_results res
           = (ocr_to_dict eng ress)
               \<lparr>or_full_text := Some (join '' '' (map full_text ress)),
                or_text_regions :=
                  Some (concat (map (\<lambda>r. map (\<lambda>l. (line_text l, confidence l)) (lines r)) ress))\<rparr>"
    by blast
  from extract_text_region_ids [OF ress]
  have "map region_id ress = [0]"
    by (simp add: full_region_def)
  then show "map region_id (or_regions (dr_ocr_results res)) = [0]"
    by (simp add: ocr ocr_to_dict_def)
qed (simp_all add: full_region_def)

lemma sample_full_text:
  "process_document_full_text sample_backend scan_document ''easyocr'' sample_world
   = (Inr scan_result, scan_world)"
  by code_simp

theorem full_text_mode_result_witness:
  "process_document_full_text sample_backend scan_document ''easyocr'' sample_world
   = (Inr scan_result, scan_world)
   \<and> dr_extracted_fields scan_result = []
   \<and> dr_overall_accuracy scan_result = 0
   \<and> lr_regions (dr_layout_results scan_result) = []
   \<and> or_full_text (dr_ocr_results scan_result) = Some (full_text scan_region_result)
   \<and> calls scan_world = calls sample_world @ [Download ''scan.png'', OcrExtract EasyOCREngine]"
proof -
  from full_text_mode_result [of sample_backend scan_document "''easyocr''" sample_world
      scan_result scan_world] sample_full_text
  have f: "dr_extracted_fields scan_result = []"
    "dr_overall_accuracy scan_result = 0"
    "lr_regions (dr_layout_results scan_result) = []"
    and ex: "\<exists>img eng r.
            load_document_image sample_backend scan_document = Inr img
          \<and> get_ocr_engine ''easyocr'' = Inr eng
          \<and> extract_text sample_backend eng img [full_region img] = Inr [r]
          \<and> or_regions (dr_ocr_results scan_result) = [r]
          \<and> or_full_text (dr_ocr_results scan_result) = Some (full_text r)
          \<and> calls scan_world = calls sample_world @ [Download (storage_path scan_document),
                                                     OcrExtract eng]"
    by blast+
  have regs: "or_regions (dr_ocr_results scan_result) = [scan_region_result]"
    by (simp add: scan_result_def)
  have eng: "get_ocr_engine ''easyocr'' = Inr EasyOCREngine"
    by (simp add: get_ocr_engine_def)
  have path: "storage_path scan_document = ''scan.png''"
    by (simp add: scan_document_def)
  from ex regs eng path
  have "or_full_text (dr_ocr_results scan_result) = Some (full_text scan_region_result)"
    and "calls scan_world = calls sample_world @ [Download ''scan.png'', OcrExtract EasyOCREngine]"
    by auto
  with f sample_full_text show ?thesis by blast
qed

theorem full_text_region_id_zero_witness:
  "process_document_full_text sample_backend scan_document ''easyocr'' sample_world
   = (Inr scan_result, scan_world)
   \<and> map region_id (or_regions (dr_ocr_results scan_result)) = [0]"
  using full_text_region_id_zero [of "sample_image 200 100" sample_backend scan_document
      "''easyocr''" sample_world scan_result scan_world] sample_full_text
  by blast



















lemma sample_failed_world:
  "map sr_document_id (results failed_world) = [''d0'', ''d1'']"
  "downloads failed_world = [''zero.png'', ''one.png'', ''blank.png'']"
  "map_of (test_runs failed_world) ''run1''
   = Some \<lparr>status = FAILED, error_message = Some ''detection failed'',
           processed_documents = 2, completed = True\<rparr>"
  by code_simp+

subsection \<open>Synthetic document generator\<close>

lemma random_choice_member:
  "xs \<noteq> [] \<Longrightarrow> \<exists>v. random_choice rnd xs = Inr v \<and> v \<in> set xs"
  by (simp add: random_choice_def)

lemma first_match_choice:
  "(case filter P kvs of kv # _ \<Rightarrow> random_choice rnd (snd kv) | [] \<Rightarrow> random_choice rnd d)
   = random_choice rnd (case find P kvs of Some kv \<Rightarrow> snd kv | None \<Rightarrow> d)"
  by (induction kvs) auto

lemma field_type_pools_nonempty:
  "map_of FIELD_TYPE_DATA t = Some pool \<Longrightarrow> pool \<noteq> []"
  by (auto simp: FIELD_TYPE_DATA_def split: if_splits)

lemma legacy_pool_nonempty: "legacy_pool fname \<noteq> []"
proof -
  have pools: "\<forall>kv \<in> set DEFAULT_SYNTHETIC_DATA. snd kv \<noteq> []"
    by (simp add: DEFAULT_SYNTHETIC_DATA_def field_type_pool_def FIELD_TYPE_DATA_def)
  have dflt: "default_data_pool ''default'' \<noteq> []"
    by (simp add: default_data_pool_def DEFAULT_SYNTHETIC_DATA_def field_type_pool_def
        FIELD_TYPE_DATA_def)
  show ?thesis
  proof (cases "find (\<lambda>kv. contains (fst kv) (lower fname)) DEFAULT_SYNTHETIC_DATA")
    case None
    with dflt show ?thesis by (simp add: legacy_pool_def)
  next
    case (Some kv)
    then have "kv \<in> set DEFAULT_SYNTHETIC_DATA"
      by (auto simp: find_Some_iff)
    with pools Some show ?thesis by (simp add: legacy_pool_def)
  qed
qed

text \<open>
  Claim C5, as the code has it. The value of a field is drawn from the caller-supplied
  override list when that list is present and not empty, whatever the field type;
  otherwise from the pool of the field type when the type is a key of the field-type
  pools; otherwise from the legacy pool of the field name (the pool of the first legacy
  key contained in the lowered name, or the default pool).
\<close>

theorem get_synthetic_value_priority:
  "(custom_options = Some opts \<and> opts \<noteq> [] \<longrightarrow>
      (\<exists>v. get_synthetic_value rnd fname custom_options field_type = Inr v \<and> v \<in> set opts))
   \<and> ((custom_options = None \<or> custom_options = Some [])
        \<and> field_type = Some t \<and> map_of FIELD_TYPE_DATA t = Some pool \<longrightarrow>
      (\<exists>v. get_synthetic_value rnd fname custom_options field_type = Inr v \<and> v \<in> set pool))
   \<and> ((custom_options = None \<or> custom_options = Some [])
        \<and> (field_type = None \<or> (\<exists>u. field_type = Some u \<and> map_of FIELD_TYPE_DATA u = None)) \<longrightarrow>
      (\<exists>v. get_synthetic_value rnd fname custom_options field_type = Inr v
           \<and> v \<in> set (legacy_pool fname)))"
proof (intro conjI impI)
  assume "custom_options = Some opts \<and> opts \<noteq> []"
  then show "\<exists>v. get_synthetic_value rnd fname custom_options field_type = Inr v \<and> v \<in> set opts"
    using random_choice_member [of opts rnd]
    by (simp add: get_synthetic_value_def)
next
  assume a: "(custom_options = None \<or> custom_options = Some [])
        \<and> field_type = Some t \<and> map_of FIELD_TYPE_DATA t = Some pool"
  then have t: "t \<noteq> []"
    by (auto simp: FIELD_TYPE_DATA_def)
  from a have ne: "pool \<noteq> []"
    by (auto dest: field_type_pools_nonempty)
  from a t have "get_synthetic_value rnd fname custom_options field_type = random_choice rnd pool"
    by (auto simp: get_synthetic_value_def field_type_pool_def)
  with random_choice_member [OF ne, of rnd]
  show "\<exists>v. get_synthetic_value rnd fname custom_options field_type = Inr v \<and> v \<in> set pool"
    by simp
next
  assume a: "(custom_options = None \<or> custom_options = Some [])
        \<and> (field_type = None \<or> (\<exists>u. field_type = Some u \<and> map_of FIELD_TYPE_DATA u = None))"
  then have "get_synthetic_value rnd fname custom_options field_type
             = random_choice rnd (legacy_pool fname)"
    by (auto simp: get_synthetic_value_def legacy_pool_def first_match_choice Let_def)
  with random_choice_member [OF legacy_pool_nonempty, of rnd fname]
  show "\<exists>v. get_synthetic_value rnd fname custom_options field_type = Inr v
           \<and> v \<in> set (legacy_pool fname)"
    by simp
qed

lemma sample_values:
  "get_synthetic_value 0 ''amount'' (Some [''ZZZ'']) (Some ''numeric_short'') = Inr ''ZZZ''"
  "get_synthetic_value 3 ''amount'' None (Some ''numeric_short'') = Inr ''012''"
  "get_synthetic_value 2 ''Case_Number'' None None = Inr ''2023-CV-009012''"
  "map_of FIELD_TYPE_DATA ''numeric_short''
   = Some [''123'', ''456'', ''789'', ''012'', ''345'', ''678'', ''901'', ''234'',
           ''5678'', ''9012'', ''1234'', ''4567'', ''8901'', ''42'', ''307'', ''88'']"
  "''ZZZ'' \<notin> set (field_type_pool ''numeric_short'')"
  by code_simp+

theorem get_synthetic_value_priority_witness:
  "get_synthetic_value 0 ''amount'' (Some [''ZZZ'']) (Some ''numeric_short'') = Inr ''ZZZ''
   \<and> (\<exists>v. get_synthetic_value 3 ''amount'' None (Some ''numeric_short'') = Inr v
          \<and> v \<in> set (field_type_pool ''numeric_short''))
   \<and> (\<exists>v. get_synthetic_value 2 ''Case_Number'' None None = Inr v
          \<and> v \<in> set (legacy_pool ''Case_Number''))"
proof -
  from get_synthetic_value_priority [of "Some [''ZZZ'']" "[''ZZZ'']" 0 "''amount''"
      "Some ''numeric_short''"]
  have a: "get_synthetic_value 0 ''amount'' (Some [''ZZZ'']) (Some ''numeric_short'') = Inr ''ZZZ''"
    by auto
  from get_synthetic_value_priority [of None _ 3 "''amount''" "Some ''numeric_short''"
      "''numeric_short''" "field_type_pool ''numeric_short''"] sample_values(4)
  have b: "\<exists>v. get_synthetic_value 3 ''amount'' None (Some ''numeric_short'') = Inr v
          \<and> v \<in> set (field_type_pool ''numeric_short'')"
    by (simp add: field_type_pool_def)
  from get_synthetic_value_priority [of None _ 2 "''Case_Number''" None]
  have c: "\<exists>v. get_synthetic_value 2 ''Case_Number'' None None = Inr v
          \<and> v \<in> set (legacy_pool ''Case_Number'')"
    by simp
  from a b c show ?thesis by blast
qed

theorem override_list_wins_counterexample:
  "get_synthetic_value 0 ''amount'' (Some [''ZZZ'']) (Some ''numeric_short'') = Inr ''ZZZ''
   \<and> ''ZZZ'' \<notin> set (field_type_pool ''numeric_short'')"
  by code_simp

subsection \<open>Scan simulator\<close>

lemma preset_of_unknown:
  "preset \<noteq> ''light'' \<Longrightarrow> preset \<noteq> ''medium'' \<Longrightarrow> preset \<noteq> ''heavy'' \<Longrightarrow>
   preset_of preset = preset_of ''medium''"
  by (simp add: preset_of_def PRESETS_def)

text \<open>
  Claim C9. Provided the Pillow and NumPy operations keep the size of an image, as they
  are documented to, \<open>apply_scan_effects\<close> returns an image of the width and height of
  its input, for every preset string. A preset string other than \<open>light\<close>, \<open>medium\<close> and
  \<open>heavy\<close> gives what the preset \<open>medium\<close> gives.
\<close>

theorem apply_scan_effects_size:
  "(pil_keeps_size ops \<longrightarrow>
      width (apply_scan_effects ops rnd img preset) = width img
    \<and> height (apply_scan_effects ops rnd img preset) = height img)
   \<and> (preset \<notin> {''light'', ''medium'', ''heavy''} \<longrightarrow>
        preset_of preset = preset_of ''medium''
      \<and> apply_scan_effects ops rnd img preset = apply_scan_effects ops rnd img ''medium'')"
proof (intro conjI impI)
  assume k: "pil_keeps_size ops"
  then have keep:
    "\<And>i. width (copy_rgb ops i) = width i" "\<And>i. height (copy_rgb ops i) = height i"
    "\<And>m sz c. width (new_image ops m sz c) = fst sz"
    "\<And>m sz c. height (new_image ops m sz c) = snd sz"
    "\<And>i j x. width j = width i \<Longrightarrow> height j = height i \<Longrightarrow> width (blend ops i j x) = width i"
    "\<And>i j x. width j = width i \<Longrightarrow> height j = height i \<Longrightarrow> height (blend ops i j x) = height i"
    "\<And>i x. width (rotate_image ops i x) = width i" "\<And>i x. height (rotate_image ops i x) = height i"
    "\<And>i x. width (enhance_brightness ops i x) = width i"
    "\<And>i x. height (enhance_brightness ops i x) = height i"
    "\<And>i x. width (enhance_contrast ops i x) = width i"
    "\<And>i x. height (enhance_contrast ops i x) = height i"
    "\<And>i x. width (gaussian_blur ops i x) = width i" "\<And>i x. height (gaussian_blur ops i x) = height i"
    "\<And>i x n. width (add_noise ops i x n) = width i" "\<And>i x n. height (add_noise ops i x n) = height i"
    unfolding pil_keeps_size_def by blast+
  show "width (apply_scan_effects ops rnd img preset) = width img"
    by (simp add: apply_scan_effects_def Let_def keep)
  show "height (apply_scan_effects ops rnd img preset) = height img"
    by (simp add: apply_scan_effects_def Let_def keep)
next
  assume u: "preset \<notin> {''light'', ''medium'', ''heavy''}"
  then show p: "preset_of preset = preset_of ''medium''"
    by (intro preset_of_unknown) auto
  show "apply_scan_effects ops rnd img preset = apply_scan_effects ops rnd img ''medium''"
    unfolding apply_scan_effects_def p ..
qed

lemma sample_pil_keeps_size: "pil_keeps_size sample_pil"
  by (simp add: pil_keeps_size_def sample_pil_def)

theorem apply_scan_effects_size_witness:
  "pil_keeps_size sample_pil
   \<and> ''sepia'' \<notin> {''light'', ''medium'', ''heavy''}
   \<and> width (apply_scan_effects sample_pil sample_draws (sample_image 200 100) ''sepia'') = 200
   \<and> height (apply_scan_effects sample_pil sample_draws (sample_image 200 100) ''sepia'') = 100
   \<and> preset_of ''sepia'' = preset_of ''medium''"
proof -
  have u: "''sepia'' \<notin> {''light'', ''medium'', ''heavy''}" by simp
  have sz: "width (sample_image 200 100) = 200" "height (sample_image 200 100) = 100"
    by (simp_all add: sample_image_def)
  from apply_scan_effects_size [of sample_pil sample_draws "sample_image 200 100" "''sepia''"]
    sample_pil_keeps_size u
  show ?thesis unfolding sz by blast
qed

end
